theory Spec2Isabelle
  imports Main
begin

section \<open>The cart store (stores/cart)\<close>

text \<open>
  The cart is a list of lines. JavaScript numbers that carry product ids, unit prices
  and quantities are modelled as \<open>int\<close>: the store only compares them, adds one and
  multiplies price by quantity, and the product screen passes whole numbers.
  Names are opaque strings.
\<close>

record CartItem =
  id_item :: int
  name_item :: string
  price :: int
  quantity :: int

record product =
  id_product :: int
  name_product :: string
  price_product :: int

record CartState =
  items :: "CartItem list"

definition initialCart :: CartState where
  "initialCart = \<lparr>items = []\<rparr>"

definition addItem :: "product \<Rightarrow> CartState \<Rightarrow> CartState" where
  "addItem product state =
     (let productId = id_product product;
          existingItem = find (\<lambda>item. id_item item = productId) (items state)
      in case existingItem of
           Some _ \<Rightarrow>
             state\<lparr>items :=
               map (\<lambda>item. if id_item item = productId
                            then item\<lparr>quantity := quantity item + 1\<rparr>
                            else item)
                   (items state)\<rparr>
         | None \<Rightarrow>
             state\<lparr>items :=
               items state @
                 [\<lparr>id_item = productId, name_item = name_product product,
                   price = price_product product, quantity = 1\<rparr>]\<rparr>)"

definition updateQuantity :: "int \<Rightarrow> int \<Rightarrow> CartState \<Rightarrow> CartState" where
  "updateQuantity i n state =
     (if n \<le> 0
      then state\<lparr>items := filter (\<lambda>item. id_item item \<noteq> i) (items state)\<rparr>
      else state\<lparr>items :=
             map (\<lambda>item. if id_item item = i then item\<lparr>quantity := n\<rparr> else item)
                 (items state)\<rparr>)"

definition clearCart :: "CartState \<Rightarrow> CartState" where
  "clearCart state = state\<lparr>items := []\<rparr>"

definition getTotalAmount :: "CartState \<Rightarrow> int" where
  "getTotalAmount state =
     foldl (\<lambda>total item. total + price item * quantity item) 0 (items state)"

definition getTotalItems :: "CartState \<Rightarrow> int" where
  "getTotalItems state = foldl (\<lambda>total item. total + quantity item) 0 (items state)"

text \<open>Sequences of store calls, applied from left to right.\<close>

datatype cart_op = AddItem product | UpdateQuantity int int | ClearCart

fun cart_step :: "CartState \<Rightarrow> cart_op \<Rightarrow> CartState" where
  "cart_step state (AddItem p) = addItem p state"
| "cart_step state (UpdateQuantity i n) = updateQuantity i n state"
| "cart_step state ClearCart = clearCart state"

definition cart_run :: "cart_op list \<Rightarrow> CartState \<Rightarrow> CartState" where
  "cart_run ops state = foldl cart_step state ops"

text \<open>The invariant of the data model: every line has quantity at least one.\<close>

definition quantities_positive :: "CartState \<Rightarrow> bool" where
  "quantities_positive state = list_all (\<lambda>item. 1 \<le> quantity item) (items state)"


section \<open>The payment screen (pages/payment): data\<close>

text \<open>
  The screen is a React component: its state variables and refs are the fields of a
  record, and every handler, effect and callback is a function from the record to the
  updated record. The browser's timer table and the sockets the component has created
  are fields too, so that scheduling, clearing and closing are visible. The payment store
  (stores/payment), the router and the mutation library are not part of the component:
  calls into them are appended to a log, and the values an effect or a callback
  closes over (the store's \<open>requestId\<close>, \<open>isActive\<close>, \<open>timer\<close>, \<open>status\<close>, and the
  rendered \<open>wsStatus\<close>) are arguments of the function.
\<close>

datatype PaymentMethod = QR_CODE | STUDENT_ID

datatype WebSocketStatus = CONNECTING | CONNECTED | DISCONNECTED | FAILED

datatype ReadyState = WS_CONNECTING | WS_OPEN | WS_CLOSING | WS_CLOSED

datatype notification_kind = Success | Error | Info

text \<open>
  The user-facing texts are Korean string literals; each literal of the source is one
  constructor, named after its use (the source line is given). \<open>ServerText\<close> is a text
  taken from a server frame. The last two are not texts at all.
  \<open>InheritedMember k\<close> is the member named \<open>k\<close> that every object inherits from
  \<open>Object.prototype\<close>, a function or an object, which reaches the places of a text
  when the lookup table is indexed with such a name. \<open>UpdaterResult k prev\<close> is what
  a state variable holds after its setter was given the inherited function \<open>k\<close>: a
  setter of \<open>useState\<close> takes a function for an updater and keeps what it returns
  for the previous state \<open>prev\<close>.
\<close>

datatype msg =
    ORDER_NOT_FOUND_TEXT        \<comment> \<open>line 445\<close>
  | ORDER_NOT_PENDING_TEXT      \<comment> \<open>line 446\<close>
  | USER_NOT_FOUND_TEXT         \<comment> \<open>line 447\<close>
  | BOOTH_NOT_FOUND_TEXT        \<comment> \<open>line 448\<close>
  | CANCEL_ERROR_TEXT           \<comment> \<open>line 502\<close>
  | QR_REQUEST_ERROR_TEXT       \<comment> \<open>line 546\<close>
  | RESPONSE_TIMEOUT_TEXT       \<comment> \<open>lines 563 and 615\<close>
  | STUDENT_REQUEST_DONE_TEXT   \<comment> \<open>line 593\<close>
  | STUDENT_REQUEST_ERROR_TEXT  \<comment> \<open>line 598\<close>
  | PAYMENT_FAILED_TEXT         \<comment> \<open>line 769\<close>
  | PAYMENT_FAILED_DETAIL_TEXT  \<comment> \<open>line 770\<close>
  | PAYMENT_EXPIRED_TEXT        \<comment> \<open>line 774\<close>
  | INVALID_STUDENT_ID_TEXT     \<comment> \<open>line 934\<close>
  | ServerText string
  | InheritedMember string
  | UpdaterResult string "msg option"

record NotificationType =
  kind :: notification_kind
  message :: msg
  submessage :: "msg option"

record ErrorResponse =
  code :: "string option"
  message_err :: "string option"

text \<open>
  What a mutation rejects with: an axios error with the body of the response (when there
  is one) and the error's own \<open>code\<close>, or any other error.
\<close>

datatype mutation_error =
    OtherError
  | AxiosError "ErrorResponse option" "string option"

text \<open>The body of a successful payment-creation response.\<close>

record PaymentResponse =
  id_resp :: string
  token :: "string option"
  expiresAt :: "string option"

text \<open>
  The expiry handed to the store: the server's string, or
  \<open>new Date(ms).toISOString()\<close> for the given milliseconds.
\<close>

datatype expiry = ServerExpiry string | ISOString int

text \<open>
  An inbound frame after \<open>JSON.parse\<close>: parsing (or reading a property of the
  result) throws, or there is a value with its \<open>status\<close> and \<open>message\<close> when they
  are strings.
\<close>

datatype ws_frame = Unparsable | Frame "string option" "string option"

text \<open>Calls that leave the component.\<close>

datatype call =
    CancelOrderMutate
  | QrPaymentMutate
  | StudentIdPaymentMutate string
  | SetStatus string
  | SetPaymentRequest string string string PaymentMethod expiry
  | ResetPaymentRequest
  | CancelPayment
  | DecrementTimer
  | Navigate string

text \<open>
  What a pending timer runs. The reconnect callback closes over the \<open>connectWebSocket\<close>
  of the render that created the socket, hence over that render's \<open>requestId\<close> and
  \<open>wsStatus\<close>.
\<close>

datatype callback =
    DismissNotification
  | ReconnectWebSocket "string option" WebSocketStatus
  | DecrementTick

record socket =
  readyState :: ReadyState
  requestId_ws :: "string option"
  wsStatus_ws :: WebSocketStatus

record PaymentScreen =
  isMounted :: bool
  selectedMethod :: PaymentMethod
  studentId :: string
  errorMessage :: "msg option"
  errorCode :: "string option"
  notification :: "NotificationType option"
  wsStatus :: WebSocketStatus
  wsReconnectAttemptsRef :: nat
  webSocketRef :: "nat option"
  timerIntervalRef :: "nat option"
  notificationTimeoutRef :: "nat option"
  wsReconnectTimeoutRef :: "nat option"
  timers :: "(nat \<times> nat \<times> callback) list"
  nextHandle :: nat
  sockets :: "socket list"
  webSocketUrlAccepted :: bool
  cart :: CartState
  calls :: "call list"

definition NOTIFICATION_DURATION :: nat where
  "NOTIFICATION_DURATION = 3000"

definition WS_RECONNECT_DELAY :: nat where
  "WS_RECONNECT_DELAY = 3000"

definition MAX_RECONNECT_ATTEMPTS :: nat where
  "MAX_RECONNECT_ATTEMPTS = 3"

text \<open>
  The lookup table is an object literal, and \<open>ERROR_MESSAGES[code]\<close> is a property
  read: it finds the four own keys, and after them the members of the literal's
  prototype, \<open>Object.prototype\<close> (ECMAScript, with its Annex B). Each of those is a
  function or an object, hence truthy; any other name gives \<open>undefined\<close>, which is
  \<open>None\<close> here.
\<close>

definition objectPrototypeNames :: "string list" where
  "objectPrototypeNames =
     [''constructor'', ''hasOwnProperty'', ''isPrototypeOf'', ''propertyIsEnumerable'',
      ''toLocaleString'', ''toString'', ''valueOf'', ''__proto__'',
      ''__defineGetter__'', ''__defineSetter__'', ''__lookupGetter__'',
      ''__lookupSetter__'']"

definition ERROR_MESSAGES :: "string \<Rightarrow> msg option" where
  "ERROR_MESSAGES k =
     (case map_of [(''ORDER_NOT_FOUND'', ORDER_NOT_FOUND_TEXT),
                   (''ORDER_NOT_PENDING'', ORDER_NOT_PENDING_TEXT),
                   (''USER_NOT_FOUND'', USER_NOT_FOUND_TEXT),
                   (''BOOTH_NOT_FOUND'', BOOTH_NOT_FOUND_TEXT)] k of
        Some t \<Rightarrow> Some t
      | None \<Rightarrow> if k \<in> set objectPrototypeNames then Some (InheritedMember k) else None)"

text \<open>JavaScript truthiness of a string that may be null or undefined.\<close>

definition truthy :: "string option \<Rightarrow> bool" where
  "truthy v = (case v of None \<Rightarrow> False | Some str \<Rightarrow> str \<noteq> [])"

text \<open>
  The component as first rendered: \<open>useState\<close> and \<open>useRef\<close> initial values, no
  timer, no socket. Timer handles are positive, as the browser's are.
\<close>

definition initialScreen :: "bool \<Rightarrow> CartState \<Rightarrow> PaymentScreen" where
  "initialScreen urlAccepted c =
     \<lparr>isMounted = True, selectedMethod = QR_CODE, studentId = [],
      errorMessage = None, errorCode = None, notification = None,
      wsStatus = DISCONNECTED, wsReconnectAttemptsRef = 0, webSocketRef = None,
      timerIntervalRef = None, notificationTimeoutRef = None,
      wsReconnectTimeoutRef = None, timers = [], nextHandle = 1, sockets = [],
      webSocketUrlAccepted = urlAccepted, cart = c, calls = []\<rparr>"


section \<open>The payment screen: timers and notifications\<close>

text \<open>
  \<open>window.setTimeout\<close> and \<open>window.setInterval\<close> register a callback under a
  fresh handle, which is \<open>nextHandle\<close> of the state before; \<open>clearTimeout\<close> and
  \<open>clearInterval\<close> remove the entry with the handle, if it is still there.
\<close>

definition setTimer :: "callback \<Rightarrow> nat \<Rightarrow> PaymentScreen \<Rightarrow> PaymentScreen" where
  "setTimer cb delay s =
     s\<lparr>timers := timers s @ [(nextHandle s, delay, cb)],
       nextHandle := Suc (nextHandle s)\<rparr>"

definition clearTimer :: "nat \<Rightarrow> PaymentScreen \<Rightarrow> PaymentScreen" where
  "clearTimer h s = s\<lparr>timers := filter (\<lambda>t. fst t \<noteq> h) (timers s)\<rparr>"

definition call :: "call \<Rightarrow> PaymentScreen \<Rightarrow> PaymentScreen" where
  "call c s = s\<lparr>calls := calls s @ [c]\<rparr>"

text \<open>
  The recurring \<open>if (ref.current) { clear(ref.current); ref.current = null; }\<close>, for
  each of the three timer refs.
\<close>

definition clearNotificationTimeout :: "PaymentScreen \<Rightarrow> PaymentScreen" where
  "clearNotificationTimeout s =
     (case notificationTimeoutRef s of
        Some h \<Rightarrow> (clearTimer h s)\<lparr>notificationTimeoutRef := None\<rparr>
      | None \<Rightarrow> s)"

definition clearTimerInterval :: "PaymentScreen \<Rightarrow> PaymentScreen" where
  "clearTimerInterval s =
     (case timerIntervalRef s of
        Some h \<Rightarrow> (clearTimer h s)\<lparr>timerIntervalRef := None\<rparr>
      | None \<Rightarrow> s)"

definition clearReconnectTimeout :: "PaymentScreen \<Rightarrow> PaymentScreen" where
  "clearReconnectTimeout s =
     (case wsReconnectTimeoutRef s of
        Some h \<Rightarrow> (clearTimer h s)\<lparr>wsReconnectTimeoutRef := None\<rparr>
      | None \<Rightarrow> s)"

definition showNotification ::
  "notification_kind \<Rightarrow> msg \<Rightarrow> msg option \<Rightarrow> PaymentScreen \<Rightarrow> PaymentScreen" where
  "showNotification k m sub s =
     (if \<not> isMounted s then s
      else
        let s1 = clearNotificationTimeout s;
            s2 = s1\<lparr>notification := Some \<lparr>kind = k, message = m, submessage = sub\<rparr>\<rparr>
        in (setTimer DismissNotification NOTIFICATION_DURATION s2)
             \<lparr>notificationTimeoutRef := Some (nextHandle s2)\<rparr>)"

definition dismissNotification :: "PaymentScreen \<Rightarrow> PaymentScreen" where
  "dismissNotification s = (if isMounted s then s\<lparr>notification := None\<rparr> else s)"


section \<open>The payment screen: mutations\<close>

definition handleCancel :: "PaymentScreen \<Rightarrow> PaymentScreen" where
  "handleCancel s = (if isMounted s then call CancelOrderMutate s else s)"

definition cancelOrderMutation_onError ::
  "mutation_error \<Rightarrow> PaymentScreen \<Rightarrow> PaymentScreen" where
  "cancelOrderMutation_onError err s =
     (if \<not> isMounted s then s
      else
        let m = (case err of
                   AxiosError (Some errorData) _ \<Rightarrow>
                     (if truthy (code errorData)
                      then (case ERROR_MESSAGES (the (code errorData)) of
                              Some t \<Rightarrow> t
                            | None \<Rightarrow> CANCEL_ERROR_TEXT)
                      else CANCEL_ERROR_TEXT)
                 | _ \<Rightarrow> CANCEL_ERROR_TEXT)
        in showNotification Error m None s)"

definition cancelOrderMutation_onSettled :: "PaymentScreen \<Rightarrow> PaymentScreen" where
  "cancelOrderMutation_onSettled s =
     (if \<not> isMounted s then s
      else call (Navigate ''/products'')
             ((call CancelPayment s)\<lparr>cart := clearCart (cart s)\<rparr>))"

text \<open>
  The mutation library runs \<open>onError\<close> and then \<open>onSettled\<close> when the call rejects,
  and \<open>onSettled\<close> alone (no \<open>onSuccess\<close> is given) when it resolves.
\<close>

datatype 'a outcome = Resolved 'a | Rejected mutation_error

definition cancelOrderMutation_done :: "unit outcome \<Rightarrow> PaymentScreen \<Rightarrow> PaymentScreen" where
  "cancelOrderMutation_done r s =
     (case r of
        Resolved _ \<Rightarrow> cancelOrderMutation_onSettled s
      | Rejected err \<Rightarrow> cancelOrderMutation_onSettled (cancelOrderMutation_onError err s))"

text \<open>
  What \<open>setErrorMessage(v)\<close> stores when the state was \<open>prev\<close>: the value, unless
  it is a function. Of the inherited members only \<open>__proto__\<close> is not a function.
\<close>

definition storedBySetter :: "msg \<Rightarrow> msg option \<Rightarrow> msg" where
  "storedBySetter v prev =
     (case v of
        InheritedMember k \<Rightarrow> if k = ''__proto__'' then v else UpdaterResult k prev
      | _ \<Rightarrow> v)"

text \<open>
  The two payment-creation mutations read a rejection in the same way, from their own
  default text: the text to show and the code to keep.
\<close>

definition creationFailure :: "msg \<Rightarrow> mutation_error \<Rightarrow> msg \<times> string option" where
  "creationFailure dflt err =
     (case err of
        OtherError \<Rightarrow> (dflt, None)
      | AxiosError (Some errorData) _ \<Rightarrow>
          (if truthy (code errorData)
           then (case ERROR_MESSAGES (the (code errorData)) of
                   Some t \<Rightarrow> (t, code errorData)
                 | None \<Rightarrow> (dflt, code errorData))
           else (dflt, None))
      | AxiosError None c \<Rightarrow>
          (if c = Some ''ECONNABORTED'' then (RESPONSE_TIMEOUT_TEXT, None) else (dflt, None)))"

definition qrPaymentMutation_onError ::
  "mutation_error \<Rightarrow> PaymentScreen \<Rightarrow> PaymentScreen" where
  "qrPaymentMutation_onError err s =
     (if \<not> isMounted s then s
      else
        let (errorMsg, c) = creationFailure QR_REQUEST_ERROR_TEXT err
        in showNotification Error errorMsg None
             (s\<lparr>errorCode := c,
                errorMessage := Some (storedBySetter errorMsg (errorMessage s))\<rparr>))"

definition studentIdPaymentMutation_onError ::
  "mutation_error \<Rightarrow> PaymentScreen \<Rightarrow> PaymentScreen" where
  "studentIdPaymentMutation_onError err s =
     (if \<not> isMounted s then s
      else
        let (errorMsg, c) = creationFailure STUDENT_REQUEST_ERROR_TEXT err
        in showNotification Error errorMsg None
             (s\<lparr>errorCode := c,
                errorMessage := Some (storedBySetter errorMsg (errorMessage s))\<rparr>))"

text \<open>
  The effect that creates the QR payment request, for the \<open>orderId\<close>, \<open>requestCode\<close>
  and \<open>qrPaymentMutation.isPending\<close> of its render.
\<close>

definition createQrPaymentRequest :: "PaymentScreen \<Rightarrow> PaymentScreen" where
  "createQrPaymentRequest s = (if isMounted s then call QrPaymentMutate s else s)"

definition qrPaymentEffect ::
  "string option \<Rightarrow> string option \<Rightarrow> bool \<Rightarrow> PaymentScreen \<Rightarrow> PaymentScreen" where
  "qrPaymentEffect orderId requestCode isPending s =
     (if selectedMethod s = QR_CODE \<and> truthy orderId \<and> \<not> truthy requestCode
         \<and> \<not> isPending \<and> isMounted s
      then createQrPaymentRequest s
      else s)"

text \<open>\<open>now\<close> is \<open>Date.now()\<close>, in milliseconds.\<close>

definition defaultExpiry :: "int \<Rightarrow> expiry" where
  "defaultExpiry now = ISOString (now + 15 * 60 * 1000)"

definition qrPaymentMutation_onSuccess ::
  "PaymentResponse \<Rightarrow> int \<Rightarrow> PaymentScreen \<Rightarrow> PaymentScreen" where
  "qrPaymentMutation_onSuccess data now s =
     (if \<not> isMounted s then s
      else call (SetPaymentRequest (id_resp data)
                   (if truthy (token data) then the (token data) else [])
                   ''PENDING'' QR_CODE
                   (if truthy (expiresAt data) then ServerExpiry (the (expiresAt data))
                    else defaultExpiry now)) s)"

definition studentIdPaymentMutation_onSuccess ::
  "PaymentResponse \<Rightarrow> int \<Rightarrow> PaymentScreen \<Rightarrow> PaymentScreen" where
  "studentIdPaymentMutation_onSuccess data now s =
     (if \<not> isMounted s then s
      else showNotification Success STUDENT_REQUEST_DONE_TEXT None
             (call (SetPaymentRequest (id_resp data)
                      (if truthy (token data) then the (token data) else studentId s)
                      ''PENDING'' STUDENT_ID
                      (if truthy (expiresAt data) then ServerExpiry (the (expiresAt data))
                       else defaultExpiry now)) s))"


section \<open>The payment screen: failure display\<close>

definition handleRetry :: "PaymentScreen \<Rightarrow> PaymentScreen" where
  "handleRetry s =
     (if \<not> isMounted s then s
      else
        let s1 = (call ResetPaymentRequest s)\<lparr>errorMessage := None, errorCode := None\<rparr>
        in if selectedMethod s = STUDENT_ID then s1\<lparr>studentId := []\<rparr> else s1)"

text \<open>
  \<open>renderErrorAction\<close> returns nothing or one button; a button is known by what its
  \<open>onClick\<close> runs.
\<close>

datatype error_action = BackToProductsButton | RetryButton

definition renderErrorAction :: "PaymentScreen \<Rightarrow> error_action option" where
  "renderErrorAction s =
     (if \<not> truthy (errorCode s) then None
      else if errorCode s = Some ''ORDER_NOT_PENDING'' \<or> errorCode s = Some ''ORDER_NOT_FOUND''
      then Some BackToProductsButton
      else Some RetryButton)"

definition errorAction_onClick :: "error_action \<Rightarrow> PaymentScreen \<Rightarrow> PaymentScreen" where
  "errorAction_onClick b s =
     (case b of
        BackToProductsButton \<Rightarrow> (if isMounted s then call (Navigate ''/products'') s else s)
      | RetryButton \<Rightarrow> handleRetry s)"

text \<open>
  \<open>handleMethodChange\<close>; the two \<open>isPending\<close> flags of the mutation library are
  arguments.
\<close>

definition handleMethodChange ::
  "PaymentMethod \<Rightarrow> bool \<Rightarrow> bool \<Rightarrow> PaymentScreen \<Rightarrow> PaymentScreen" where
  "handleMethodChange method qrPending studentPending s =
     (if selectedMethod s \<noteq> method \<and> \<not> qrPending \<and> \<not> studentPending \<and> isMounted s
      then
        let s1 = call ResetPaymentRequest
                   (s\<lparr>selectedMethod := method, errorMessage := None, errorCode := None\<rparr>)
        in if method = STUDENT_ID then s1\<lparr>studentId := []\<rparr> else s1
      else s)"


section \<open>The payment screen: deadline timer effect\<close>

text \<open>
  The effect body, for the \<open>isActive\<close>, \<open>timer\<close> and \<open>status\<close> of the render it
  belongs to, and the cleanup it returns.
\<close>

definition timerEffect :: "bool \<Rightarrow> int \<Rightarrow> string \<Rightarrow> PaymentScreen \<Rightarrow> PaymentScreen" where
  "timerEffect isActive timer status s =
     (let s1 =
        (if isActive \<and> 0 < timer
         then
           let s0 = clearTimerInterval s
           in (setTimer DecrementTick 1000 s0)\<lparr>timerIntervalRef := Some (nextHandle s0)\<rparr>
         else if timer \<le> 0 \<and> isActive \<and> isMounted s then handleCancel s
         else s)
      in if status = ''COMPLETED'' \<and> isMounted s1
         then call (Navigate ''/payment-complete'') s1
         else s1)"

definition timerEffect_cleanup :: "PaymentScreen \<Rightarrow> PaymentScreen" where
  "timerEffect_cleanup s = clearTimerInterval s"

definition decrementTick :: "PaymentScreen \<Rightarrow> PaymentScreen" where
  "decrementTick s = (if isMounted s then call DecrementTimer s else s)"


section \<open>The payment screen: push channel\<close>

text \<open>\<open>close()\<close> of the socket with the given index: it starts closing unless it has.\<close>

definition closeSocket :: "nat \<Rightarrow> PaymentScreen \<Rightarrow> PaymentScreen" where
  "closeSocket i s =
     (if i < length (sockets s) \<and>
         (readyState (sockets s ! i) = WS_CONNECTING \<or> readyState (sockets s ! i) = WS_OPEN)
      then s\<lparr>sockets := (sockets s)[i := (sockets s ! i)\<lparr>readyState := WS_CLOSING\<rparr>]\<rparr>
      else s)"

text \<open>
  \<open>if (webSocketRef.current) { webSocketRef.current.close(); webSocketRef.current = null; }\<close>
\<close>

definition closeWebSocketRef :: "PaymentScreen \<Rightarrow> PaymentScreen" where
  "closeWebSocketRef s =
     (case webSocketRef s of
        Some i \<Rightarrow> (closeSocket i s)\<lparr>webSocketRef := None\<rparr>
      | None \<Rightarrow> s)"

text \<open>
  \<open>connectWebSocket\<close> of a render with the given \<open>requestId\<close> and \<open>wsStatus\<close>.
  The constructor \<open>new WebSocket(wsUrl)\<close> throws when the URL built from the constant
  \<open>API_URL\<close> is not accepted, and the \<open>catch\<close> branch then sets \<open>FAILED\<close>.
\<close>

definition connectWebSocket ::
  "string option \<Rightarrow> WebSocketStatus \<Rightarrow> PaymentScreen \<Rightarrow> PaymentScreen" where
  "connectWebSocket requestId wsStatusR s =
     (if \<not> truthy requestId \<or> \<not> isMounted s then s
      else if wsStatusR = CONNECTING \<or> wsStatusR = CONNECTED then s
      else
        let s1 = s\<lparr>wsStatus := CONNECTING\<rparr>;
            s2 = (case webSocketRef s1 of
                    Some i \<Rightarrow>
                      (if i < length (sockets s1) \<and> readyState (sockets s1 ! i) \<noteq> WS_CLOSED
                       then closeSocket i s1 else s1)
                  | None \<Rightarrow> s1)
        in if webSocketUrlAccepted s2
           then s2\<lparr>sockets := sockets s2 @
                       [\<lparr>readyState = WS_CONNECTING, requestId_ws = requestId,
                         wsStatus_ws = wsStatusR\<rparr>],
                   webSocketRef := Some (length (sockets s2))\<rparr>
           else s2\<lparr>wsStatus := FAILED\<rparr>)"

definition ws_onopen :: "PaymentScreen \<Rightarrow> PaymentScreen" where
  "ws_onopen s =
     (if isMounted s then s\<lparr>wsStatus := CONNECTED, wsReconnectAttemptsRef := 0\<rparr> else s)"

definition ws_onmessage :: "ws_frame \<Rightarrow> PaymentScreen \<Rightarrow> PaymentScreen" where
  "ws_onmessage frame s =
     (if \<not> isMounted s then s
      else case frame of
        Unparsable \<Rightarrow> s\<lparr>wsStatus := FAILED\<rparr>
      | Frame status m \<Rightarrow>
          if status = Some ''COMPLETED'' then call (SetStatus ''COMPLETED'') s
          else if status = Some ''FAILED''
          then showNotification Error PAYMENT_FAILED_TEXT
                 (Some (if truthy m then ServerText (the m) else PAYMENT_FAILED_DETAIL_TEXT))
                 (call (SetStatus ''FAILED'') s)
          else if status = Some ''EXPIRED''
          then handleCancel
                 (showNotification Error PAYMENT_EXPIRED_TEXT None
                    (call (SetStatus ''EXPIRED'') s))
          else s)"

definition ws_onerror :: "PaymentScreen \<Rightarrow> PaymentScreen" where
  "ws_onerror s = (if isMounted s then s\<lparr>wsStatus := FAILED\<rparr> else s)"

definition reconnectDelay :: "nat \<Rightarrow> nat" where
  "reconnectDelay attempts = min (WS_RECONNECT_DELAY * (attempts + 1)) 10000"

definition ws_onclose ::
  "string option \<Rightarrow> WebSocketStatus \<Rightarrow> bool \<Rightarrow> PaymentScreen \<Rightarrow> PaymentScreen" where
  "ws_onclose requestId wsStatusR wasClean s =
     (if \<not> isMounted s then s
      else if wasClean then s
      else
        let s1 = s\<lparr>wsStatus := DISCONNECTED\<rparr>
        in if wsReconnectAttemptsRef s1 < MAX_RECONNECT_ATTEMPTS \<and> truthy requestId
              \<and> isMounted s1
           then
             let delay = reconnectDelay (wsReconnectAttemptsRef s1);
                 s2 = clearReconnectTimeout s1
             in (setTimer (ReconnectWebSocket requestId wsStatusR) delay s2)
                  \<lparr>wsReconnectTimeoutRef := Some (nextHandle s2)\<rparr>
           else s1\<lparr>wsStatus := FAILED\<rparr>)"

text \<open>The callback of the reconnect timeout.\<close>

definition reconnectCallback ::
  "string option \<Rightarrow> WebSocketStatus \<Rightarrow> PaymentScreen \<Rightarrow> PaymentScreen" where
  "reconnectCallback requestId wsStatusR s =
     (if isMounted s
      then connectWebSocket requestId wsStatusR
             (s\<lparr>wsReconnectAttemptsRef := wsReconnectAttemptsRef s + 1\<rparr>)
      else s)"

text \<open>The effect that follows \<open>requestId\<close> and \<open>wsStatus\<close>.\<close>

definition webSocketEffect ::
  "string option \<Rightarrow> WebSocketStatus \<Rightarrow> PaymentScreen \<Rightarrow> PaymentScreen" where
  "webSocketEffect requestId wsStatusR s =
     (if truthy requestId \<and> wsStatusR \<noteq> CONNECTED \<and> isMounted s
      then connectWebSocket requestId wsStatusR s
      else if \<not> truthy requestId
      then
        let s1 = (if isMounted s then s\<lparr>wsStatus := DISCONNECTED\<rparr> else s)
        in clearReconnectTimeout (closeWebSocketRef s1)
      else s)"

definition handleReconnectWebSocket ::
  "string option \<Rightarrow> WebSocketStatus \<Rightarrow> PaymentScreen \<Rightarrow> PaymentScreen" where
  "handleReconnectWebSocket requestId wsStatusR s =
     (if isMounted s
      then connectWebSocket requestId wsStatusR (s\<lparr>wsReconnectAttemptsRef := 0\<rparr>)
      else s)"

text \<open>The cleanup of the mount effect.\<close>

definition unmount :: "PaymentScreen \<Rightarrow> PaymentScreen" where
  "unmount s =
     closeWebSocketRef
       (clearReconnectTimeout
          (clearTimerInterval
             (clearNotificationTimeout (s\<lparr>isMounted := False\<rparr>))))"


section \<open>The payment screen: student id\<close>

text \<open>
  \<open>parseInt(string, 10)\<close> of ECMAScript: leading white space is skipped, one sign is
  read, then the longest prefix of decimal digits; with no digit the result is NaN,
  which is \<open>None\<close> here. Strings are lists of code units below 256, which covers the
  keys of the on-screen keypad.
\<close>

definition isWhiteSpace :: "char \<Rightarrow> bool" where
  "isWhiteSpace c =
     (let n = (of_char c :: nat)
      in n = 9 \<or> n = 10 \<or> n = 11 \<or> n = 12 \<or> n = 13 \<or> n = 32 \<or> n = 160)"

definition isDigit :: "char \<Rightarrow> bool" where
  "isDigit c = (48 \<le> (of_char c :: nat) \<and> (of_char c :: nat) \<le> 57)"

definition digitValue :: "char \<Rightarrow> int" where
  "digitValue c = int (of_char c) - 48"

definition parseInt10 :: "string \<Rightarrow> int option" where
  "parseInt10 inputString =
     (let S = dropWhile isWhiteSpace inputString;
          sign = (if S \<noteq> [] \<and> hd S = CHR ''-'' then - 1 else 1);
          S' = (if S \<noteq> [] \<and> (hd S = CHR ''+'' \<or> hd S = CHR ''-'') then tl S else S);
          Z = takeWhile isDigit S'
      in if Z = [] then None
         else Some (sign * foldl (\<lambda>acc c. 10 * acc + digitValue c) 0 Z))"

text \<open>Comparisons with a number that may be NaN: every comparison with NaN is false.\<close>

definition geq :: "int option \<Rightarrow> int \<Rightarrow> bool" where
  "geq x n = (case x of None \<Rightarrow> False | Some v \<Rightarrow> n \<le> v)"

definition leq :: "int option \<Rightarrow> int \<Rightarrow> bool" where
  "leq x n = (case x of None \<Rightarrow> False | Some v \<Rightarrow> v \<le> n)"

definition validateStudentId :: "string \<Rightarrow> bool" where
  "validateStudentId sid =
     (if length sid \<noteq> 4 then False
      else
        let grade = parseInt10 [sid ! 0];
            room = parseInt10 [sid ! 1];
            number = parseInt10 (drop 2 sid)
        in geq grade 1 \<and> leq grade 9 \<and> geq room 1 \<and> leq room 9
           \<and> geq number 1 \<and> leq number 99)"

definition handleStudentIdSubmit :: "PaymentScreen \<Rightarrow> PaymentScreen" where
  "handleStudentIdSubmit s =
     (if \<not> isMounted s then s
      else if \<not> validateStudentId (studentId s)
      then showNotification Info INVALID_STUDENT_ID_TEXT None s
      else call (StudentIdPaymentMutate (studentId s)) s)"

definition handleKeypadPress :: "string \<Rightarrow> PaymentScreen \<Rightarrow> PaymentScreen" where
  "handleKeypadPress v s =
     (if \<not> isMounted s then s
      else if v = ''delete'' then s\<lparr>studentId := butlast (studentId s)\<rparr>
      else if v = ''clear'' then s\<lparr>studentId := []\<rparr>
      else if length (studentId s) < 4 then s\<lparr>studentId := studentId s @ v\<rparr>
      else s)"

text \<open>
  The claim's wording of a valid student id, to compare with \<open>validateStudentId\<close>:
  four characters; the first, read as an integer, is a grade from 1 to 9, the second a
  room from 1 to 9, and the last two a number from 1 to 99.
\<close>

definition between :: "int option \<Rightarrow> int \<Rightarrow> int \<Rightarrow> bool" where
  "between x lo hi = (case x of None \<Rightarrow> False | Some v \<Rightarrow> lo \<le> v \<and> v \<le> hi)"

definition studentIdWellFormed :: "string \<Rightarrow> bool" where
  "studentIdWellFormed sid =
     (length sid = 4
      \<and> between (parseInt10 (take 1 sid)) 1 9
      \<and> between (parseInt10 (take 1 (drop 1 sid))) 1 9
      \<and> between (parseInt10 (drop 2 sid)) 1 99)"


section \<open>The payment screen: events\<close>

text \<open>
  What can happen to a mounted or unmounted screen, one event at a time: an effect or
  its cleanup runs, a timer fires, a socket the component created reports, the user
  acts, a mutation completes. A socket event runs the handlers installed on that
  socket, with what they closed over. The presentational pulse of the timer display
  keeps its interval in a local variable and touches none of the fields; it is left out.
\<close>

datatype event =
    Unmount
  | WebSocketEffect "string option" WebSocketStatus
  | TimerEffect bool int string
  | TimerEffectCleanup
  | QrPaymentEffect "string option" "string option" bool
  | TimerFires nat
  | SocketOpens nat
  | SocketMessage nat ws_frame
  | SocketError nat
  | SocketCloses nat bool
  | ClickCancel
  | ClickReconnect "string option" WebSocketStatus
  | ClickErrorAction
  | ChangeMethod PaymentMethod bool bool
  | KeypadPress string
  | SubmitStudentId
  | CancelOrderDone "unit outcome"
  | QrPaymentDone "PaymentResponse outcome" int
  | StudentIdPaymentDone "PaymentResponse outcome" int

definition setReadyState :: "nat \<Rightarrow> ReadyState \<Rightarrow> PaymentScreen \<Rightarrow> PaymentScreen" where
  "setReadyState i r s = s\<lparr>sockets := (sockets s)[i := (sockets s ! i)\<lparr>readyState := r\<rparr>]\<rparr>"

definition fireTimer :: "nat \<Rightarrow> PaymentScreen \<Rightarrow> PaymentScreen" where
  "fireTimer h s =
     (case find (\<lambda>t. fst t = h) (timers s) of
        None \<Rightarrow> s
      | Some (_, _, cb) \<Rightarrow>
          (case cb of
             DecrementTick \<Rightarrow> decrementTick s
           | DismissNotification \<Rightarrow> dismissNotification (clearTimer h s)
           | ReconnectWebSocket requestId wsStatusR \<Rightarrow>
               reconnectCallback requestId wsStatusR (clearTimer h s)))"

fun step :: "PaymentScreen \<Rightarrow> event \<Rightarrow> PaymentScreen" where
  "step s Unmount = unmount s"
| "step s (WebSocketEffect requestId wsStatusR) = webSocketEffect requestId wsStatusR s"
| "step s (TimerEffect isActive timer status) = timerEffect isActive timer status s"
| "step s TimerEffectCleanup = timerEffect_cleanup s"
| "step s (QrPaymentEffect orderId requestCode isPending) =
     qrPaymentEffect orderId requestCode isPending s"
| "step s (TimerFires h) = fireTimer h s"
| "step s (SocketOpens i) =
     (if i < length (sockets s) then ws_onopen (setReadyState i WS_OPEN s) else s)"
| "step s (SocketMessage i frame) =
     (if i < length (sockets s) then ws_onmessage frame s else s)"
| "step s (SocketError i) = (if i < length (sockets s) then ws_onerror s else s)"
| "step s (SocketCloses i wasClean) =
     (if i < length (sockets s)
      then ws_onclose (requestId_ws (sockets s ! i)) (wsStatus_ws (sockets s ! i)) wasClean
             (setReadyState i WS_CLOSED s)
      else s)"
| "step s ClickCancel = handleCancel s"
| "step s (ClickReconnect requestId wsStatusR) = handleReconnectWebSocket requestId wsStatusR s"
| "step s ClickErrorAction =
     (case renderErrorAction s of None \<Rightarrow> s | Some b \<Rightarrow> errorAction_onClick b s)"
| "step s (ChangeMethod method qrPending studentPending) =
     handleMethodChange method qrPending studentPending s"
| "step s (KeypadPress v) = handleKeypadPress v s"
| "step s SubmitStudentId = handleStudentIdSubmit s"
| "step s (CancelOrderDone r) = cancelOrderMutation_done r s"
| "step s (QrPaymentDone r now) =
     (case r of
        Resolved data \<Rightarrow> qrPaymentMutation_onSuccess data now s
      | Rejected err \<Rightarrow> qrPaymentMutation_onError err s)"
| "step s (StudentIdPaymentDone r now) =
     (case r of
        Resolved data \<Rightarrow> studentIdPaymentMutation_onSuccess data now s
      | Rejected err \<Rightarrow> studentIdPaymentMutation_onError err s)"

definition run :: "event list \<Rightarrow> PaymentScreen \<Rightarrow> PaymentScreen" where
  "run evs s = foldl step s evs"

text \<open>Pending reconnect timers, and the number of cancellation calls started.\<close>

definition isReconnect :: "nat \<times> nat \<times> callback \<Rightarrow> bool" where
  "isReconnect t = (case snd (snd t) of ReconnectWebSocket _ _ \<Rightarrow> True | _ \<Rightarrow> False)"

definition pendingReconnects :: "PaymentScreen \<Rightarrow> (nat \<times> nat \<times> callback) list" where
  "pendingReconnects s = filter isReconnect (timers s)"

definition cancellationsStarted :: "PaymentScreen \<Rightarrow> nat" where
  "cancellationsStarted s = length (filter (\<lambda>c. c = CancelOrderMutate) (calls s))"


text \<open>
  What holds of the timer table and the sockets in every state the events can produce:
  handles in the table are below the next handle; a pending reconnect timer is the one
  \<open>wsReconnectTimeoutRef\<close> holds; and the handlers of a socket, like the reconnect
  callbacks, belong to a \<open>connectWebSocket\<close> that went past its two guards, so their
  \<open>requestId\<close> is truthy and their \<open>wsStatus\<close> is neither CONNECTING nor CONNECTED.
\<close>

definition pastGuards :: "string option \<Rightarrow> WebSocketStatus \<Rightarrow> bool" where
  "pastGuards requestId wsStatusR =
     (truthy requestId \<and> wsStatusR \<noteq> CONNECTING \<and> wsStatusR \<noteq> CONNECTED)"

definition handlesFresh :: "PaymentScreen \<Rightarrow> bool" where
  "handlesFresh s = list_all (\<lambda>t. fst t < nextHandle s) (timers s)"

definition reconnectTracked :: "PaymentScreen \<Rightarrow> bool" where
  "reconnectTracked s =
     list_all (\<lambda>t. \<not> isReconnect t \<or> wsReconnectTimeoutRef s = Some (fst t)) (timers s)"

definition closuresPastGuards :: "PaymentScreen \<Rightarrow> bool" where
  "closuresPastGuards s =
     (list_all (\<lambda>t. case snd (snd t) of
                      ReconnectWebSocket r w \<Rightarrow> pastGuards r w
                    | _ \<Rightarrow> True) (timers s)
      \<and> list_all (\<lambda>k. pastGuards (requestId_ws k) (wsStatus_ws k)) (sockets s))"

definition channelInvariant :: "PaymentScreen \<Rightarrow> bool" where
  "channelInvariant s = (handlesFresh s \<and> reconnectTracked s \<and> closuresPastGuards s)"


section \<open>Cart totals\<close>

lemma foldl_plus_sum_list:
  "foldl (\<lambda>total item. total + f item) (a::int) xs = a + sum_list (map f xs)"
  by (induction xs arbitrary: a) simp_all

lemma getTotalAmount_sum:
  "getTotalAmount state = (\<Sum>item\<leftarrow>items state. price item * quantity item)"
  by (simp add: getTotalAmount_def foldl_plus_sum_list)

lemma getTotalItems_sum:
  "getTotalItems state = (\<Sum>item\<leftarrow>items state. quantity item)"
  by (simp add: getTotalItems_def foldl_plus_sum_list)

text \<open>
  C8. After any sequence of \<open>addItem\<close> and \<open>updateQuantity\<close> calls from the empty
  cart (and of \<open>clearCart\<close> calls too), \<open>getTotalAmount\<close> is the sum of price times
  quantity over the current lines and \<open>getTotalItems\<close> is the sum of the quantities.
  A cart with the lines (price 1000, quantity 2) and (price 500, quantity 3), whatever
  their ids and names and however it was built, has total amount 3500 and 5 items.
\<close>

theorem cart_totals:
  "getTotalAmount (cart_run ops initialCart) =
     (\<Sum>item\<leftarrow>items (cart_run ops initialCart). price item * quantity item)
   \<and> getTotalItems (cart_run ops initialCart) =
     (\<Sum>item\<leftarrow>items (cart_run ops initialCart). quantity item)
   \<and> getTotalAmount
       \<lparr>items = [\<lparr>id_item = i1, name_item = n1, price = 1000, quantity = 2\<rparr>,
                 \<lparr>id_item = i2, name_item = n2, price = 500, quantity = 3\<rparr>]\<rparr> = 3500
   \<and> getTotalItems
       \<lparr>items = [\<lparr>id_item = i1, name_item = n1, price = 1000, quantity = 2\<rparr>,
                 \<lparr>id_item = i2, name_item = n2, price = 500, quantity = 3\<rparr>]\<rparr> = 5
   \<and> items (cart_run
         [AddItem \<lparr>id_product = 1, name_product = ''a'', price_product = 1000\<rparr>,
          AddItem \<lparr>id_product = 2, name_product = ''b'', price_product = 500\<rparr>,
          AddItem \<lparr>id_product = 1, name_product = ''a'', price_product = 1000\<rparr>,
          UpdateQuantity 2 3] initialCart) =
       [\<lparr>id_item = 1, name_item = ''a'', price = 1000, quantity = 2\<rparr>,
        \<lparr>id_item = 2, name_item = ''b'', price = 500, quantity = 3\<rparr>]"
proof -
  have run: "items (cart_run
         [AddItem \<lparr>id_product = 1, name_product = ''a'', price_product = 1000\<rparr>,
          AddItem \<lparr>id_product = 2, name_product = ''b'', price_product = 500\<rparr>,
          AddItem \<lparr>id_product = 1, name_product = ''a'', price_product = 1000\<rparr>,
          UpdateQuantity 2 3] initialCart) =
       [\<lparr>id_item = 1, name_item = ''a'', price = 1000, quantity = 2\<rparr>,
        \<lparr>id_item = 2, name_item = ''b'', price = 500, quantity = 3\<rparr>]"
    by (simp add: cart_run_def initialCart_def addItem_def updateQuantity_def)
  show ?thesis
    using run by (simp add: getTotalAmount_sum getTotalItems_sum)
qed


section \<open>The quantity invariant\<close>

lemma quantities_positive_addItem:
  "quantities_positive state \<Longrightarrow> quantities_positive (addItem p state)"
  by (auto simp: quantities_positive_def addItem_def Let_def list_all_iff
           split: option.splits)

lemma quantities_positive_updateQuantity:
  "quantities_positive state \<Longrightarrow> quantities_positive (updateQuantity i n state)"
  by (auto simp: quantities_positive_def updateQuantity_def list_all_iff)

lemma quantities_positive_clearCart: "quantities_positive (clearCart state)"
  by (simp add: quantities_positive_def clearCart_def)

lemma quantities_positive_step:
  "quantities_positive state \<Longrightarrow> quantities_positive (cart_step state opn)"
  by (cases opn)
     (simp_all add: quantities_positive_addItem quantities_positive_updateQuantity
        quantities_positive_clearCart)

lemma quantities_positive_foldl:
  "quantities_positive state \<Longrightarrow> quantities_positive (foldl cart_step state ops)"
  by (induction ops arbitrary: state) (simp_all add: quantities_positive_step)

lemma quantities_positive_run: "quantities_positive (cart_run ops initialCart)"
  unfolding cart_run_def
  by (rule quantities_positive_foldl) (simp add: quantities_positive_def initialCart_def)

lemma addItem_new:
  "find (\<lambda>item. id_item item = id_product p) (items state) = None \<Longrightarrow>
   items (addItem p state) =
     items state @ [\<lparr>id_item = id_product p, name_item = name_product p,
                     price = price_product p, quantity = 1\<rparr>]"
  by (simp add: addItem_def)

lemma addItem_existing:
  "find (\<lambda>item. id_item item = id_product p) (items state) = Some x \<Longrightarrow>
   items (addItem p state) =
     map (\<lambda>item. if id_item item = id_product p
                  then item\<lparr>quantity := quantity item + 1\<rparr> else item) (items state)"
  by (simp add: addItem_def)

text \<open>
  C9. Every cart operation preserves "every line has quantity at least 1":
  \<open>addItem\<close> appends a line with quantity 1 when no line has the product's id and
  otherwise adds one to the quantity of the lines with that id; \<open>updateQuantity i n\<close>
  removes the lines with id \<open>i\<close> when \<open>n \<le> 0\<close> and otherwise sets their quantity to
  \<open>n\<close>; \<open>clearCart\<close> empties the list. Hence no cart reached from the empty cart has
  a line with quantity 0 or less.
\<close>

theorem cart_quantity_invariant:
  "(quantities_positive state \<longrightarrow>
      quantities_positive (addItem p state)
    \<and> quantities_positive (updateQuantity i n state)
    \<and> quantities_positive (clearCart state))
   \<and> (find (\<lambda>item. id_item item = id_product p) (items state) = None \<longrightarrow>
        items (addItem p state) =
          items state @ [\<lparr>id_item = id_product p, name_item = name_product p,
                          price = price_product p, quantity = 1\<rparr>])
   \<and> (find (\<lambda>item. id_item item = id_product p) (items state) \<noteq> None \<longrightarrow>
        items (addItem p state) =
          map (\<lambda>item. if id_item item = id_product p
                       then item\<lparr>quantity := quantity item + 1\<rparr> else item)
              (items state))
   \<and> (n \<le> 0 \<longrightarrow>
        items (updateQuantity i n state) =
          filter (\<lambda>item. id_item item \<noteq> i) (items state))
   \<and> (0 < n \<longrightarrow>
        items (updateQuantity i n state) =
          map (\<lambda>item. if id_item item = i then item\<lparr>quantity := n\<rparr> else item)
              (items state))
   \<and> items (clearCart state) = []
   \<and> quantities_positive (cart_run ops initialCart)
   \<and> (\<forall>item \<in> set (items (cart_run ops initialCart)). \<not> quantity item \<le> 0)"
proof -
  have reach: "quantities_positive (cart_run ops initialCart)"
    by (rule quantities_positive_run)
  then have none: "\<forall>item \<in> set (items (cart_run ops initialCart)). \<not> quantity item \<le> 0"
    by (auto simp: quantities_positive_def list_all_iff)
  have upd: "n \<le> 0 \<longrightarrow>
        items (updateQuantity i n state) =
          filter (\<lambda>item. id_item item \<noteq> i) (items state)"
    by (simp add: updateQuantity_def)
  have upd': "0 < n \<longrightarrow>
        items (updateQuantity i n state) =
          map (\<lambda>item. if id_item item = i then item\<lparr>quantity := n\<rparr> else item)
              (items state)"
    by (simp add: updateQuantity_def)
  have clr: "items (clearCart state) = []"
    by (simp add: clearCart_def)
  show ?thesis
    using reach none upd upd' clr
    by (auto simp: quantities_positive_addItem quantities_positive_updateQuantity
          quantities_positive_clearCart addItem_new addItem_existing)
qed

theorem cart_quantity_invariant_witness:
  "quantities_positive \<lparr>items = [\<lparr>id_item = 7, name_item = ''tea'', price = 1500, quantity = 2\<rparr>]\<rparr>
   \<and> items (addItem \<lparr>id_product = 7, name_product = ''tea'', price_product = 1500\<rparr>
        \<lparr>items = [\<lparr>id_item = 7, name_item = ''tea'', price = 1500, quantity = 2\<rparr>]\<rparr>) =
       [\<lparr>id_item = 7, name_item = ''tea'', price = 1500, quantity = 3\<rparr>]
   \<and> items (addItem \<lparr>id_product = 8, name_product = ''bun'', price_product = 900\<rparr>
        \<lparr>items = [\<lparr>id_item = 7, name_item = ''tea'', price = 1500, quantity = 2\<rparr>]\<rparr>) =
       [\<lparr>id_item = 7, name_item = ''tea'', price = 1500, quantity = 2\<rparr>,
        \<lparr>id_item = 8, name_item = ''bun'', price = 900, quantity = 1\<rparr>]
   \<and> items (updateQuantity 7 0
        \<lparr>items = [\<lparr>id_item = 7, name_item = ''tea'', price = 1500, quantity = 2\<rparr>]\<rparr>) = []
   \<and> items (updateQuantity 7 5
        \<lparr>items = [\<lparr>id_item = 7, name_item = ''tea'', price = 1500, quantity = 2\<rparr>]\<rparr>) =
       [\<lparr>id_item = 7, name_item = ''tea'', price = 1500, quantity = 5\<rparr>]
   \<and> quantities_positive (addItem \<lparr>id_product = 7, name_product = ''tea'', price_product = 1500\<rparr>
        \<lparr>items = [\<lparr>id_item = 7, name_item = ''tea'', price = 1500, quantity = 2\<rparr>]\<rparr>)
   \<and> quantities_positive (updateQuantity 7 5
        \<lparr>items = [\<lparr>id_item = 7, name_item = ''tea'', price = 1500, quantity = 2\<rparr>]\<rparr>)
   \<and> quantities_positive (cart_run
        [AddItem \<lparr>id_product = 7, name_product = ''tea'', price_product = 1500\<rparr>,
         UpdateQuantity 7 (-1)] initialCart)"
proof -
  let ?s = "\<lparr>items = [\<lparr>id_item = 7, name_item = ''tea'', price = 1500, quantity = 2\<rparr>]\<rparr>"
  let ?tea = "\<lparr>id_product = 7, name_product = ''tea'', price_product = 1500\<rparr>"
  let ?bun = "\<lparr>id_product = 8, name_product = ''bun'', price_product = 900\<rparr>"
  have pos: "quantities_positive ?s"
    by (simp add: quantities_positive_def)
  have old: "find (\<lambda>item. id_item item = id_product ?tea) (items ?s) \<noteq> None"
    by simp
  have new: "find (\<lambda>item. id_item item = id_product ?bun) (items ?s) = None"
    by simp
  note a = cart_quantity_invariant [of ?s ?tea 7 5
      "[AddItem ?tea, UpdateQuantity 7 (-1)]"]
  note b = cart_quantity_invariant [of ?s ?bun 7 0 "[]"]
  show ?thesis
    using pos old new a b by simp
qed


section \<open>Channel events and cancellation\<close>

lemmas screen_defs =
  showNotification_def clearNotificationTimeout_def clearTimerInterval_def
  clearReconnectTimeout_def closeWebSocketRef_def setTimer_def clearTimer_def call_def
  handleCancel_def NOTIFICATION_DURATION_def

lemma initialScreen_fields [simp]:
  "isMounted (initialScreen u c)"
  "calls (initialScreen u c) = []"
  "cart (initialScreen u c) = c"
  "studentId (initialScreen u c) = []"
  "timers (initialScreen u c) = []"
  "sockets (initialScreen u c) = []"
  "nextHandle (initialScreen u c) = 1"
  "wsReconnectAttemptsRef (initialScreen u c) = 0"
  "wsReconnectTimeoutRef (initialScreen u c) = None"
  "webSocketUrlAccepted (initialScreen u c) = u"
  by (simp_all add: initialScreen_def)

text \<open>
  C1, at the race the claim describes. The channel is open; the deadline effect runs
  with the session active and the timer at 0, which starts the cancellation; before
  that call settles an EXPIRED frame arrives. Its handler calls \<open>handleCancel\<close> as
  well, and \<open>handleCancel\<close> starts the mutation whenever the screen is mounted: the
  cancellation is started twice.
\<close>

theorem cancel_started_twice_on_race:
  "cancellationsStarted
     (run [WebSocketEffect (Some ''r1'') DISCONNECTED, SocketOpens 0,
           TimerEffect True 0 ''PENDING'',
           SocketMessage 0 (Frame (Some ''EXPIRED'') None)]
        (initialScreen True initialCart)) = 2
   \<and> calls
     (run [WebSocketEffect (Some ''r1'') DISCONNECTED, SocketOpens 0,
           TimerEffect True 0 ''PENDING'',
           SocketMessage 0 (Frame (Some ''EXPIRED'') None)]
        (initialScreen True initialCart)) =
     [CancelOrderMutate, SetStatus ''EXPIRED'', CancelOrderMutate]"
  by (simp add: run_def initialScreen_def webSocketEffect_def connectWebSocket_def
        truthy_def ws_onopen_def setReadyState_def timerEffect_def ws_onmessage_def
        screen_defs cancellationsStarted_def Let_def)




section \<open>Payment creation\<close>

lemma creationFailure_coded:
  "k \<noteq> [] \<Longrightarrow>
   creationFailure dflt (AxiosError (Some \<lparr>code = Some k, message_err = m\<rparr>) c) =
     (case ERROR_MESSAGES k of Some t \<Rightarrow> t | None \<Rightarrow> dflt, Some k)"
  by (simp add: creationFailure_def truthy_def split: option.splits)

lemma creationFailure_uncoded:
  "creationFailure dflt (AxiosError (Some \<lparr>code = None, message_err = m\<rparr>) c) = (dflt, None)"
  by (simp add: creationFailure_def truthy_def)

lemma qr_onError_fields:
  "isMounted s \<Longrightarrow>
   errorMessage (qrPaymentMutation_onError err s) =
     Some (storedBySetter (fst (creationFailure QR_REQUEST_ERROR_TEXT err)) (errorMessage s))
   \<and> errorCode (qrPaymentMutation_onError err s) =
     snd (creationFailure QR_REQUEST_ERROR_TEXT err)
   \<and> notification (qrPaymentMutation_onError err s) =
     Some \<lparr>kind = Error, message = fst (creationFailure QR_REQUEST_ERROR_TEXT err),
           submessage = None\<rparr>
   \<and> isMounted (qrPaymentMutation_onError err s)
   \<and> calls (qrPaymentMutation_onError err s) = calls s"
  by (simp add: qrPaymentMutation_onError_def screen_defs Let_def
        split: prod.splits option.splits)

lemma student_onError_fields:
  "isMounted s \<Longrightarrow>
   errorMessage (studentIdPaymentMutation_onError err s) =
     Some (storedBySetter (fst (creationFailure STUDENT_REQUEST_ERROR_TEXT err))
             (errorMessage s))
   \<and> errorCode (studentIdPaymentMutation_onError err s) =
     snd (creationFailure STUDENT_REQUEST_ERROR_TEXT err)
   \<and> notification (studentIdPaymentMutation_onError err s) =
     Some \<lparr>kind = Error, message = fst (creationFailure STUDENT_REQUEST_ERROR_TEXT err),
           submessage = None\<rparr>
   \<and> isMounted (studentIdPaymentMutation_onError err s)
   \<and> calls (studentIdPaymentMutation_onError err s) = calls s"
  by (simp add: studentIdPaymentMutation_onError_def screen_defs Let_def
        split: prod.splits option.splits)

lemma renderErrorAction_code:
  "errorCode s = Some k \<Longrightarrow> k \<noteq> [] \<Longrightarrow>
   renderErrorAction s =
     Some (if k = ''ORDER_NOT_FOUND'' \<or> k = ''ORDER_NOT_PENDING''
           then BackToProductsButton else RetryButton)"
  by (simp add: renderErrorAction_def truthy_def)

text \<open>
  What holds for the codes a server can be expected to send, the ones that are not names
  of inherited members: the displayed message is the table's text for the code, and the
  method's generic text when the code is not a key; a response without a code gives the
  generic text too; \<open>renderErrorAction\<close> returns the button that navigates to the
  product listing for \<open>ORDER_NOT_FOUND\<close> and \<open>ORDER_NOT_PENDING\<close>, and the retry
  button for every other code.
\<close>

lemma creation_failure_ordinary_codes:
  fixes m c :: "string option"
  assumes mounted: "isMounted s" and k: "k \<noteq> []"
    and ordinary: "k \<notin> set objectPrototypeNames"
  defines "coded \<equiv> AxiosError (Some \<lparr>code = Some k, message_err = m\<rparr>) c"
  defines "uncoded \<equiv> AxiosError (Some \<lparr>code = None, message_err = m\<rparr>) c"
  shows "k \<notin> {''ORDER_NOT_FOUND'', ''ORDER_NOT_PENDING'', ''USER_NOT_FOUND'',
               ''BOOTH_NOT_FOUND''} \<Longrightarrow>
           errorMessage (qrPaymentMutation_onError coded s) = Some QR_REQUEST_ERROR_TEXT
         \<and> errorMessage (studentIdPaymentMutation_onError coded s) =
             Some STUDENT_REQUEST_ERROR_TEXT"
    and "errorMessage (qrPaymentMutation_onError uncoded s) = Some QR_REQUEST_ERROR_TEXT"
    and "errorMessage (studentIdPaymentMutation_onError uncoded s) =
           Some STUDENT_REQUEST_ERROR_TEXT"
    and "renderErrorAction (qrPaymentMutation_onError coded s) =
           Some (if k = ''ORDER_NOT_FOUND'' \<or> k = ''ORDER_NOT_PENDING''
                 then BackToProductsButton else RetryButton)"
    and "renderErrorAction (studentIdPaymentMutation_onError coded s) =
           Some (if k = ''ORDER_NOT_FOUND'' \<or> k = ''ORDER_NOT_PENDING''
                 then BackToProductsButton else RetryButton)"
proof -
  note q = qr_onError_fields [OF mounted, of coded]
  note t = student_onError_fields [OF mounted, of coded]
  note qu = qr_onError_fields [OF mounted, of uncoded]
  note tu = student_onError_fields [OF mounted, of uncoded]
  have cf: "creationFailure dflt coded =
      (case ERROR_MESSAGES k of Some t \<Rightarrow> t | None \<Rightarrow> dflt, Some k)" for dflt
    unfolding coded_def by (rule creationFailure_coded [OF k])
  have unknown: "ERROR_MESSAGES k = None"
    if "k \<notin> {''ORDER_NOT_FOUND'', ''ORDER_NOT_PENDING'', ''USER_NOT_FOUND'',
                 ''BOOTH_NOT_FOUND''}"
    using that ordinary by (simp add: ERROR_MESSAGES_def)
  show "errorMessage (qrPaymentMutation_onError coded s) = Some QR_REQUEST_ERROR_TEXT
         \<and> errorMessage (studentIdPaymentMutation_onError coded s) =
             Some STUDENT_REQUEST_ERROR_TEXT"
    if "k \<notin> {''ORDER_NOT_FOUND'', ''ORDER_NOT_PENDING'', ''USER_NOT_FOUND'',
                 ''BOOTH_NOT_FOUND''}"
    using unknown [OF that] by (simp add: q t cf storedBySetter_def)
  show "errorMessage (qrPaymentMutation_onError uncoded s) = Some QR_REQUEST_ERROR_TEXT"
    using qu unfolding uncoded_def by (simp add: creationFailure_uncoded storedBySetter_def)
  show "errorMessage (studentIdPaymentMutation_onError uncoded s) =
           Some STUDENT_REQUEST_ERROR_TEXT"
    using tu unfolding uncoded_def by (simp add: creationFailure_uncoded storedBySetter_def)
  show "renderErrorAction (qrPaymentMutation_onError coded s) =
           Some (if k = ''ORDER_NOT_FOUND'' \<or> k = ''ORDER_NOT_PENDING''
                 then BackToProductsButton else RetryButton)"
    by (rule renderErrorAction_code) (simp_all add: q cf k)
  show "renderErrorAction (studentIdPaymentMutation_onError coded s) =
           Some (if k = ''ORDER_NOT_FOUND'' \<or> k = ''ORDER_NOT_PENDING''
                 then BackToProductsButton else RetryButton)"
    by (rule renderErrorAction_code) (simp_all add: t cf k)
qed

text \<open>
  C6, at two inputs where the code leaves what the claim says. First, a creation call
  is rejected with a response whose code is \<open>constructor\<close>, which is not in the
  table: the lookup finds the inherited member of that name, the test for a mapped text
  succeeds, and \<open>errorMsg\<close> is that member, not the generic message: the notification
  carries it, and the displayed error is what the state setter makes of it (the same
  happens with the student-id method, here at \<open>toString\<close>). Second, the QR creation call is rejected with \<open>ORDER_NOT_PENDING\<close>:
  the failure display offers the button back to the product listing, and the creation
  effect, which runs again when the call is no longer pending and tests neither the
  error nor its code, submits the creation call again by itself.
\<close>

theorem creation_failure_inherited_code:
  "ERROR_MESSAGES ''constructor'' = Some (InheritedMember ''constructor'')
   \<and> creationFailure QR_REQUEST_ERROR_TEXT
        (AxiosError (Some \<lparr>code = Some ''constructor'', message_err = None\<rparr>) None) =
       (InheritedMember ''constructor'', Some ''constructor'')
   \<and> errorMessage (qrPaymentMutation_onError
        (AxiosError (Some \<lparr>code = Some ''constructor'', message_err = None\<rparr>) None)
        (initialScreen True initialCart)) = Some (UpdaterResult ''constructor'' None)
   \<and> errorMessage (qrPaymentMutation_onError
        (AxiosError (Some \<lparr>code = Some ''constructor'', message_err = None\<rparr>) None)
        (initialScreen True initialCart)) \<noteq> Some QR_REQUEST_ERROR_TEXT
   \<and> notification (qrPaymentMutation_onError
        (AxiosError (Some \<lparr>code = Some ''constructor'', message_err = None\<rparr>) None)
        (initialScreen True initialCart)) =
       Some \<lparr>kind = Error, message = InheritedMember ''constructor'', submessage = None\<rparr>
   \<and> errorMessage (studentIdPaymentMutation_onError
        (AxiosError (Some \<lparr>code = Some ''toString'', message_err = None\<rparr>) None)
        (initialScreen True initialCart)) = Some (UpdaterResult ''toString'' None)
   \<and> errorMessage (studentIdPaymentMutation_onError
        (AxiosError (Some \<lparr>code = Some ''toString'', message_err = None\<rparr>) None)
        (initialScreen True initialCart)) \<noteq> Some STUDENT_REQUEST_ERROR_TEXT
   \<and> renderErrorAction
       (run [QrPaymentEffect (Some ''o1'') None False,
             QrPaymentDone (Rejected (AxiosError
               (Some \<lparr>code = Some ''ORDER_NOT_PENDING'', message_err = None\<rparr>) None)) 0]
          (initialScreen True initialCart)) = Some BackToProductsButton
   \<and> calls
       (run [QrPaymentEffect (Some ''o1'') None False,
             QrPaymentDone (Rejected (AxiosError
               (Some \<lparr>code = Some ''ORDER_NOT_PENDING'', message_err = None\<rparr>) None)) 0]
          (initialScreen True initialCart)) = [QrPaymentMutate]
   \<and> calls
       (run [QrPaymentEffect (Some ''o1'') None False,
             QrPaymentDone (Rejected (AxiosError
               (Some \<lparr>code = Some ''ORDER_NOT_PENDING'', message_err = None\<rparr>) None)) 0,
             QrPaymentEffect (Some ''o1'') None False]
          (initialScreen True initialCart)) = [QrPaymentMutate, QrPaymentMutate]"
  by (simp add: ERROR_MESSAGES_def objectPrototypeNames_def run_def initialScreen_def
        qrPaymentMutation_onError_def studentIdPaymentMutation_onError_def
        creationFailure_def storedBySetter_def truthy_def qrPaymentEffect_def
        createQrPaymentRequest_def renderErrorAction_def screen_defs Let_def)

text \<open>
  C10. A payment-creation call resolves on a mounted screen. The store receives the
  response's \<open>expiresAt\<close>, or the ISO string of now plus 15 minutes (900000 ms) when
  the response has none; it receives the response's token, or, when there is none, the
  empty string for the QR method and the typed student id for the student-id method.
  So the stored expiry and display token are always values, never null.
\<close>

theorem creation_success_defaults:
  "isMounted s \<longrightarrow>
     calls (qrPaymentMutation_onSuccess data now s) =
       calls s @ [SetPaymentRequest (id_resp data)
                    (case token data of None \<Rightarrow> [] | Some tok \<Rightarrow> tok)
                    ''PENDING'' QR_CODE
                    (if truthy (expiresAt data) then ServerExpiry (the (expiresAt data))
                     else ISOString (now + 900000))]
   \<and> calls (studentIdPaymentMutation_onSuccess data now s) =
       calls s @ [SetPaymentRequest (id_resp data)
                    (if truthy (token data) then the (token data) else studentId s)
                    ''PENDING'' STUDENT_ID
                    (if truthy (expiresAt data) then ServerExpiry (the (expiresAt data))
                     else ISOString (now + 900000))]
   \<and> (expiresAt data = None \<longrightarrow>
        (\<exists>tok. calls (qrPaymentMutation_onSuccess data now s) =
           calls s @ [SetPaymentRequest (id_resp data) tok ''PENDING'' QR_CODE
                        (ISOString (now + 15 * 60 * 1000))])
      \<and> (\<exists>tok. calls (studentIdPaymentMutation_onSuccess data now s) =
           calls s @ [SetPaymentRequest (id_resp data) tok ''PENDING'' STUDENT_ID
                        (ISOString (now + 15 * 60 * 1000))]))
   \<and> (token data = None \<longrightarrow>
        (\<exists>e. calls (qrPaymentMutation_onSuccess data now s) =
           calls s @ [SetPaymentRequest (id_resp data) [] ''PENDING'' QR_CODE e])
      \<and> (\<exists>e. calls (studentIdPaymentMutation_onSuccess data now s) =
           calls s @ [SetPaymentRequest (id_resp data) (studentId s) ''PENDING''
                        STUDENT_ID e]))"
  by (simp add: qrPaymentMutation_onSuccess_def studentIdPaymentMutation_onSuccess_def
        defaultExpiry_def screen_defs truthy_def Let_def split: option.splits)

theorem creation_success_defaults_witness:
  "isMounted ((initialScreen True initialCart)\<lparr>studentId := ''2314''\<rparr>)
   \<and> calls (qrPaymentMutation_onSuccess
        \<lparr>id_resp = ''r1'', token = None, expiresAt = None\<rparr> 1000
        ((initialScreen True initialCart)\<lparr>studentId := ''2314''\<rparr>)) =
       [SetPaymentRequest ''r1'' [] ''PENDING'' QR_CODE (ISOString 901000)]
   \<and> calls (studentIdPaymentMutation_onSuccess
        \<lparr>id_resp = ''r1'', token = None, expiresAt = None\<rparr> 1000
        ((initialScreen True initialCart)\<lparr>studentId := ''2314''\<rparr>)) =
       [SetPaymentRequest ''r1'' ''2314'' ''PENDING'' STUDENT_ID (ISOString 901000)]"
  using creation_success_defaults
      [of "(initialScreen True initialCart)\<lparr>studentId := ''2314''\<rparr>"
          "\<lparr>id_resp = ''r1'', token = None, expiresAt = None\<rparr>" 1000]
  by (simp add: truthy_def)


section \<open>Student id validation\<close>

lemma between_geq_leq: "between x lo hi \<longleftrightarrow> geq x lo \<and> leq x hi"
  by (simp add: geq_def leq_def between_def split: option.splits)

lemma validate_iff_wellFormed: "validateStudentId sid = studentIdWellFormed sid"
proof (cases "length sid = 4")
  case False
  then show ?thesis by (simp add: validateStudentId_def studentIdWellFormed_def)
next
  case True
  then obtain a b c d where sid: "sid = [a, b, c, d]"
    by (auto simp: length_Suc_conv numeral_eq_Suc)
  show ?thesis
    unfolding sid validateStudentId_def studentIdWellFormed_def Let_def
    by (simp add: between_geq_leq)
qed

lemma of_char_48: "(of_char a :: nat) = 48 \<longleftrightarrow> a = CHR ''0''"
proof -
  have "(of_char (CHR ''0'') :: nat) = 48" by simp
  then show ?thesis by (metis of_char_eq_iff)
qed

lemma digit_facts:
  assumes "isDigit a"
  shows "\<not> isWhiteSpace a" and "a \<noteq> CHR ''+''" and "a \<noteq> CHR ''-''"
    and "0 \<le> digitValue a" and "digitValue a \<le> 9"
    and "digitValue a = 0 \<longleftrightarrow> a = CHR ''0''"
proof -
  from assms have r: "48 \<le> (of_char a :: nat)" "(of_char a :: nat) \<le> 57"
    by (simp_all add: isDigit_def)
  from r show "\<not> isWhiteSpace a" by (simp add: isWhiteSpace_def Let_def)
  from r show "a \<noteq> CHR ''+''" by auto
  from r show "a \<noteq> CHR ''-''" by auto
  from r show "0 \<le> digitValue a" and "digitValue a \<le> 9" by (simp_all add: digitValue_def)
  from r of_char_48 [of a] show "digitValue a = 0 \<longleftrightarrow> a = CHR ''0''"
    by (simp add: digitValue_def)
qed

lemma parseInt10_digit: "isDigit a \<Longrightarrow> parseInt10 [a] = Some (digitValue a)"
  by (simp add: parseInt10_def digit_facts)

lemma parseInt10_two_digits:
  "isDigit a \<Longrightarrow> isDigit b \<Longrightarrow> parseInt10 [a, b] = Some (10 * digitValue a + digitValue b)"
  by (simp add: parseInt10_def digit_facts)

lemma validate_digits:
  assumes "isDigit a" "isDigit b" "isDigit c" "isDigit d"
  shows "validateStudentId [a, b, c, d] \<longleftrightarrow>
           a \<noteq> CHR ''0'' \<and> b \<noteq> CHR ''0'' \<and> \<not> (c = CHR ''0'' \<and> d = CHR ''0'')"
proof -
  note fa = digit_facts [OF assms(1)] and fb = digit_facts [OF assms(2)]
    and fc = digit_facts [OF assms(3)] and fd = digit_facts [OF assms(4)]
  have n: "1 \<le> 10 * digitValue c + digitValue d \<longleftrightarrow> \<not> (c = CHR ''0'' \<and> d = CHR ''0'')"
    using fc(4,6) fd(4,6) by linarith
  have m: "10 * digitValue c + digitValue d \<le> 99"
    using fc(5) fd(5) by linarith
  have a: "1 \<le> digitValue a \<longleftrightarrow> a \<noteq> CHR ''0''" using fa(4,6) by linarith
  have b: "1 \<le> digitValue b \<longleftrightarrow> b \<noteq> CHR ''0''" using fb(4,6) by linarith
  show ?thesis
    by (simp add: validateStudentId_def parseInt10_digit parseInt10_two_digits assms
        geq_def leq_def n m a b fa(5) fb(5))
qed

lemma validate_examples:
  "validateStudentId ''2314''" "validateStudentId ''9999''"
  "\<not> validateStudentId ''0099''" "\<not> validateStudentId ''5000''"
  by (simp_all add: validateStudentId_def parseInt10_def isWhiteSpace_def isDigit_def
        digitValue_def geq_def leq_def Let_def)

text \<open>
  C7. \<open>validateStudentId\<close> holds exactly when the id has four characters, the first
  read by \<open>parseInt\<close> is from 1 to 9, the second read by \<open>parseInt\<close> is from 1 to 9,
  and the last two read by \<open>parseInt\<close> are from 1 to 99. "2314" and "9999" are valid,
  "0099" and "5000" are not. On four digits this says: the first two are not 0 and
  the last two are not 00. Submitting an invalid id on a mounted screen shows the info
  notification and starts no payment call; submitting a valid one starts the call.
\<close>

theorem student_id_validation:
  "validateStudentId sid = studentIdWellFormed sid
   \<and> validateStudentId ''2314'' \<and> validateStudentId ''9999''
   \<and> \<not> validateStudentId ''0099'' \<and> \<not> validateStudentId ''5000''
   \<and> (isDigit a \<and> isDigit b \<and> isDigit c \<and> isDigit d \<longrightarrow>
        validateStudentId [a, b, c, d] =
          (a \<noteq> CHR ''0'' \<and> b \<noteq> CHR ''0'' \<and> \<not> (c = CHR ''0'' \<and> d = CHR ''0'')))
   \<and> (isMounted s \<and> \<not> validateStudentId (studentId s) \<longrightarrow>
        notification (handleStudentIdSubmit s) =
          Some \<lparr>kind = Info, message = INVALID_STUDENT_ID_TEXT, submessage = None\<rparr>
      \<and> calls (handleStudentIdSubmit s) = calls s)
   \<and> (isMounted s \<and> validateStudentId (studentId s) \<longrightarrow>
        calls (handleStudentIdSubmit s) = calls s @ [StudentIdPaymentMutate (studentId s)])"
proof -
  have submit: "isMounted s \<and> \<not> validateStudentId (studentId s) \<longrightarrow>
        notification (handleStudentIdSubmit s) =
          Some \<lparr>kind = Info, message = INVALID_STUDENT_ID_TEXT, submessage = None\<rparr>
      \<and> calls (handleStudentIdSubmit s) = calls s"
    by (simp add: handleStudentIdSubmit_def screen_defs Let_def split: option.splits)
  have submit': "isMounted s \<and> validateStudentId (studentId s) \<longrightarrow>
        calls (handleStudentIdSubmit s) = calls s @ [StudentIdPaymentMutate (studentId s)]"
    by (simp add: handleStudentIdSubmit_def call_def)
  show ?thesis
    using validate_iff_wellFormed [of sid] validate_examples validate_digits [of a b c d]
      submit submit'
    by blast
qed

theorem student_id_validation_witness:
  "isMounted ((initialScreen True initialCart)\<lparr>studentId := ''5000''\<rparr>)
   \<and> \<not> validateStudentId (studentId ((initialScreen True initialCart)\<lparr>studentId := ''5000''\<rparr>))
   \<and> notification (handleStudentIdSubmit
        ((initialScreen True initialCart)\<lparr>studentId := ''5000''\<rparr>)) =
       Some \<lparr>kind = Info, message = INVALID_STUDENT_ID_TEXT, submessage = None\<rparr>
   \<and> calls (handleStudentIdSubmit
        ((initialScreen True initialCart)\<lparr>studentId := ''5000''\<rparr>)) = []
   \<and> isDigit CHR ''2'' \<and> isDigit CHR ''3'' \<and> isDigit CHR ''1'' \<and> isDigit CHR ''4''
   \<and> validateStudentId [CHR ''2'', CHR ''3'', CHR ''1'', CHR ''4'']
   \<and> studentIdWellFormed ''2314''"
  using student_id_validation
      [of "''2314''" "CHR ''2''" "CHR ''3''" "CHR ''1''" "CHR ''4''"
          "(initialScreen True initialCart)\<lparr>studentId := ''5000''\<rparr>"]
    validate_examples
  by (simp add: isDigit_def)


section \<open>The push channel: what every reachable state satisfies\<close>

lemmas event_defs =
  unmount_def webSocketEffect_def timerEffect_def timerEffect_cleanup_def fireTimer_def
  ws_onopen_def ws_onmessage_def ws_onerror_def handleReconnectWebSocket_def
  errorAction_onClick_def handleRetry_def handleMethodChange_def
  handleKeypadPress_def handleStudentIdSubmit_def cancelOrderMutation_done_def
  cancelOrderMutation_onSettled_def cancelOrderMutation_onError_def
  qrPaymentMutation_onSuccess_def qrPaymentMutation_onError_def
  studentIdPaymentMutation_onSuccess_def studentIdPaymentMutation_onError_def
  reconnectCallback_def decrementTick_def dismissNotification_def handleCancel_def
  qrPaymentEffect_def createQrPaymentRequest_def

subsection \<open>Timer handles are fresh\<close>

lemma handlesFresh_fields [simp]:
  "handlesFresh (s\<lparr>isMounted := v0\<rparr>) = handlesFresh s"
  "handlesFresh (s\<lparr>selectedMethod := v1\<rparr>) = handlesFresh s"
  "handlesFresh (s\<lparr>studentId := v2\<rparr>) = handlesFresh s"
  "handlesFresh (s\<lparr>errorMessage := v3\<rparr>) = handlesFresh s"
  "handlesFresh (s\<lparr>errorCode := v4\<rparr>) = handlesFresh s"
  "handlesFresh (s\<lparr>notification := v5\<rparr>) = handlesFresh s"
  "handlesFresh (s\<lparr>wsStatus := v6\<rparr>) = handlesFresh s"
  "handlesFresh (s\<lparr>wsReconnectAttemptsRef := v7\<rparr>) = handlesFresh s"
  "handlesFresh (s\<lparr>webSocketRef := v8\<rparr>) = handlesFresh s"
  "handlesFresh (s\<lparr>timerIntervalRef := v9\<rparr>) = handlesFresh s"
  "handlesFresh (s\<lparr>notificationTimeoutRef := v10\<rparr>) = handlesFresh s"
  "handlesFresh (s\<lparr>wsReconnectTimeoutRef := v11\<rparr>) = handlesFresh s"
  "handlesFresh (s\<lparr>sockets := v14\<rparr>) = handlesFresh s"
  "handlesFresh (s\<lparr>cart := v16\<rparr>) = handlesFresh s"
  "handlesFresh (s\<lparr>calls := v17\<rparr>) = handlesFresh s"
  by (simp_all add: handlesFresh_def)

lemma handlesFresh_prims [simp]:
  "handlesFresh (call c s) = handlesFresh s"
  "handlesFresh (closeSocket i s) = handlesFresh s"
  "handlesFresh (setReadyState i r s) = handlesFresh s"
  "handlesFresh s \<Longrightarrow> handlesFresh (clearTimer h s)"
  "handlesFresh s \<Longrightarrow> handlesFresh (setTimer cb d s)"
  by (auto simp: handlesFresh_def call_def closeSocket_def setReadyState_def clearTimer_def
        setTimer_def list_all_iff)

lemma handlesFresh_clears [simp]:
  "handlesFresh s \<Longrightarrow> handlesFresh (clearNotificationTimeout s)"
  "handlesFresh s \<Longrightarrow> handlesFresh (clearTimerInterval s)"
  "handlesFresh s \<Longrightarrow> handlesFresh (clearReconnectTimeout s)"
  "handlesFresh (closeWebSocketRef s) = handlesFresh s"
  by (simp_all add: clearNotificationTimeout_def clearTimerInterval_def
        clearReconnectTimeout_def closeWebSocketRef_def split: option.splits)

lemma handlesFresh_showNotification [simp]:
  "handlesFresh s \<Longrightarrow> handlesFresh (showNotification k m sub s)"
  by (simp add: showNotification_def Let_def)

lemma handlesFresh_connectWebSocket [simp]:
  "handlesFresh s \<Longrightarrow> handlesFresh (connectWebSocket r w s)"
  by (simp add: connectWebSocket_def Let_def split: option.splits)

lemma handlesFresh_ws_onclose [simp]:
  "handlesFresh s \<Longrightarrow> handlesFresh (ws_onclose r w c s)"
  by (simp add: ws_onclose_def Let_def)

lemma handlesFresh_step: "handlesFresh s \<Longrightarrow> handlesFresh (step s ev)"
  by (cases ev)
     (simp_all add: event_defs Let_def
        split: option.splits prod.splits callback.splits outcome.splits
          error_action.splits ws_frame.splits)

subsection \<open>A pending reconnect is the tracked one\<close>

lemma reconnectTracked_fields [simp]:
  "reconnectTracked (s\<lparr>isMounted := v0\<rparr>) = reconnectTracked s"
  "reconnectTracked (s\<lparr>selectedMethod := v1\<rparr>) = reconnectTracked s"
  "reconnectTracked (s\<lparr>studentId := v2\<rparr>) = reconnectTracked s"
  "reconnectTracked (s\<lparr>errorMessage := v3\<rparr>) = reconnectTracked s"
  "reconnectTracked (s\<lparr>errorCode := v4\<rparr>) = reconnectTracked s"
  "reconnectTracked (s\<lparr>notification := v5\<rparr>) = reconnectTracked s"
  "reconnectTracked (s\<lparr>wsStatus := v6\<rparr>) = reconnectTracked s"
  "reconnectTracked (s\<lparr>wsReconnectAttemptsRef := v7\<rparr>) = reconnectTracked s"
  "reconnectTracked (s\<lparr>webSocketRef := v8\<rparr>) = reconnectTracked s"
  "reconnectTracked (s\<lparr>timerIntervalRef := v9\<rparr>) = reconnectTracked s"
  "reconnectTracked (s\<lparr>notificationTimeoutRef := v10\<rparr>) = reconnectTracked s"
  "reconnectTracked (s\<lparr>nextHandle := v13\<rparr>) = reconnectTracked s"
  "reconnectTracked (s\<lparr>sockets := v14\<rparr>) = reconnectTracked s"
  "reconnectTracked (s\<lparr>cart := v16\<rparr>) = reconnectTracked s"
  "reconnectTracked (s\<lparr>calls := v17\<rparr>) = reconnectTracked s"
  by (simp_all add: reconnectTracked_def)

lemma reconnectTracked_prims [simp]:
  "reconnectTracked (call c s) = reconnectTracked s"
  "reconnectTracked (closeSocket i s) = reconnectTracked s"
  "reconnectTracked (setReadyState i r s) = reconnectTracked s"
  "reconnectTracked s \<Longrightarrow> reconnectTracked (clearTimer h s)"
  "reconnectTracked s \<Longrightarrow> reconnectTracked (setTimer DismissNotification d s)"
  "reconnectTracked s \<Longrightarrow> reconnectTracked (setTimer DecrementTick d s)"
  by (auto simp: reconnectTracked_def isReconnect_def call_def closeSocket_def
        setReadyState_def clearTimer_def setTimer_def list_all_iff)

lemma reconnectTracked_clearReconnectTimeout [simp]:
  "reconnectTracked s \<Longrightarrow> reconnectTracked (clearReconnectTimeout s)"
  by (auto simp: reconnectTracked_def clearReconnectTimeout_def clearTimer_def list_all_iff
        split: option.splits)

lemma reconnectTracked_clears [simp]:
  "reconnectTracked s \<Longrightarrow> reconnectTracked (clearNotificationTimeout s)"
  "reconnectTracked s \<Longrightarrow> reconnectTracked (clearTimerInterval s)"
  "reconnectTracked (closeWebSocketRef s) = reconnectTracked s"
  by (simp_all add: clearNotificationTimeout_def clearTimerInterval_def
        closeWebSocketRef_def split: option.splits)

lemma reconnectTracked_showNotification [simp]:
  "reconnectTracked s \<Longrightarrow> reconnectTracked (showNotification k m sub s)"
  by (simp add: showNotification_def Let_def)

lemma reconnectTracked_connectWebSocket [simp]:
  "reconnectTracked s \<Longrightarrow> reconnectTracked (connectWebSocket r w s)"
  by (simp add: connectWebSocket_def Let_def split: option.splits)

text \<open>Once the tracked timeout is cleared, no reconnect is pending.\<close>

lemma pendingReconnects_cleared:
  "reconnectTracked s \<Longrightarrow> pendingReconnects (clearReconnectTimeout s) = []"
  by (auto simp: reconnectTracked_def pendingReconnects_def clearReconnectTimeout_def
        clearTimer_def list_all_iff filter_empty_conv split: option.splits)

lemma reconnectTracked_schedule:
  "pendingReconnects s = [] \<Longrightarrow>
   reconnectTracked ((setTimer cb d s)\<lparr>wsReconnectTimeoutRef := Some (nextHandle s)\<rparr>)"
  by (auto simp: reconnectTracked_def pendingReconnects_def setTimer_def list_all_iff
        filter_empty_conv)

lemma pendingReconnects_fields [simp]:
  "pendingReconnects (s\<lparr>wsStatus := v\<rparr>) = pendingReconnects s"
  "pendingReconnects (s\<lparr>wsReconnectTimeoutRef := r\<rparr>) = pendingReconnects s"
  "pendingReconnects (s\<lparr>wsReconnectAttemptsRef := n\<rparr>) = pendingReconnects s"
  "pendingReconnects (s\<lparr>sockets := k\<rparr>) = pendingReconnects s"
  "pendingReconnects (setReadyState i x s) = pendingReconnects s"
  by (simp_all add: pendingReconnects_def setReadyState_def)

lemma clearReconnectTimeout_fields [simp]:
  "nextHandle (clearReconnectTimeout s) = nextHandle s"
  "isMounted (clearReconnectTimeout s) = isMounted s"
  "wsStatus (clearReconnectTimeout s) = wsStatus s"
  "wsReconnectAttemptsRef (clearReconnectTimeout s) = wsReconnectAttemptsRef s"
  "sockets (clearReconnectTimeout s) = sockets s"
  "webSocketRef (clearReconnectTimeout s) = webSocketRef s"
  "webSocketUrlAccepted (clearReconnectTimeout s) = webSocketUrlAccepted s"
  by (simp_all add: clearReconnectTimeout_def clearTimer_def split: option.splits)

lemma reconnectTracked_ws_onclose [simp]:
  "reconnectTracked s \<Longrightarrow> reconnectTracked (ws_onclose r w c s)"
  by (auto simp: ws_onclose_def Let_def reconnectTracked_def isReconnect_def
        clearReconnectTimeout_def clearTimer_def setTimer_def list_all_iff
        split: option.splits)

lemma reconnectTracked_step: "reconnectTracked s \<Longrightarrow> reconnectTracked (step s ev)"
  by (cases ev)
     (simp_all add: event_defs Let_def
        split: option.splits prod.splits callback.splits outcome.splits
          error_action.splits ws_frame.splits)

subsection \<open>Closures went past the guards\<close>

lemma closuresPastGuards_fields [simp]:
  "closuresPastGuards (s\<lparr>isMounted := v0\<rparr>) = closuresPastGuards s"
  "closuresPastGuards (s\<lparr>selectedMethod := v1\<rparr>) = closuresPastGuards s"
  "closuresPastGuards (s\<lparr>studentId := v2\<rparr>) = closuresPastGuards s"
  "closuresPastGuards (s\<lparr>errorMessage := v3\<rparr>) = closuresPastGuards s"
  "closuresPastGuards (s\<lparr>errorCode := v4\<rparr>) = closuresPastGuards s"
  "closuresPastGuards (s\<lparr>notification := v5\<rparr>) = closuresPastGuards s"
  "closuresPastGuards (s\<lparr>wsStatus := v6\<rparr>) = closuresPastGuards s"
  "closuresPastGuards (s\<lparr>wsReconnectAttemptsRef := v7\<rparr>) = closuresPastGuards s"
  "closuresPastGuards (s\<lparr>webSocketRef := v8\<rparr>) = closuresPastGuards s"
  "closuresPastGuards (s\<lparr>timerIntervalRef := v9\<rparr>) = closuresPastGuards s"
  "closuresPastGuards (s\<lparr>notificationTimeoutRef := v10\<rparr>) = closuresPastGuards s"
  "closuresPastGuards (s\<lparr>wsReconnectTimeoutRef := v11\<rparr>) = closuresPastGuards s"
  "closuresPastGuards (s\<lparr>nextHandle := v13\<rparr>) = closuresPastGuards s"
  "closuresPastGuards (s\<lparr>cart := v16\<rparr>) = closuresPastGuards s"
  "closuresPastGuards (s\<lparr>calls := v17\<rparr>) = closuresPastGuards s"
  by (simp_all add: closuresPastGuards_def)

lemma list_all_update:
  assumes "list_all P xs" and "i < length xs \<Longrightarrow> P x"
  shows "list_all P (xs[i := x])"
proof (cases "i < length xs")
  case True
  with assms show ?thesis
    by (simp add: list_all_length nth_list_update)
next
  case False
  with assms(1) show ?thesis by (simp add: list_update_beyond)
qed

lemma find_Some_mem: "find P xs = Some x \<Longrightarrow> x \<in> set xs"
  by (induction xs) (auto split: if_splits)

lemma sockets_update_pastGuards:
  "list_all (\<lambda>k. pastGuards (requestId_ws k) (wsStatus_ws k)) xs \<Longrightarrow>
   list_all (\<lambda>k. pastGuards (requestId_ws k) (wsStatus_ws k))
     (xs[i := (xs ! i)\<lparr>readyState := r\<rparr>])"
  by (rule list_all_update) (simp_all add: list_all_length)

lemma closuresPastGuards_sockets [simp]:
  "closuresPastGuards s \<Longrightarrow> closuresPastGuards (closeSocket i s)"
  "closuresPastGuards s \<Longrightarrow> closuresPastGuards (setReadyState i r s)"
  by (simp_all add: closuresPastGuards_def closeSocket_def setReadyState_def
        sockets_update_pastGuards)

lemma closuresPastGuards_prims [simp]:
  "closuresPastGuards (call c s) = closuresPastGuards s"
  "closuresPastGuards s \<Longrightarrow> closuresPastGuards (clearTimer h s)"
  "closuresPastGuards s \<Longrightarrow> closuresPastGuards (setTimer DismissNotification d s)"
  "closuresPastGuards s \<Longrightarrow> closuresPastGuards (setTimer DecrementTick d s)"
  "closuresPastGuards s \<Longrightarrow> pastGuards q w \<Longrightarrow>
     closuresPastGuards (setTimer (ReconnectWebSocket q w) d s)"
  by (auto simp: closuresPastGuards_def call_def clearTimer_def setTimer_def list_all_iff)

lemma closuresPastGuards_clears [simp]:
  "closuresPastGuards s \<Longrightarrow> closuresPastGuards (clearNotificationTimeout s)"
  "closuresPastGuards s \<Longrightarrow> closuresPastGuards (clearTimerInterval s)"
  "closuresPastGuards s \<Longrightarrow> closuresPastGuards (clearReconnectTimeout s)"
  "closuresPastGuards s \<Longrightarrow> closuresPastGuards (closeWebSocketRef s)"
  by (simp_all add: clearNotificationTimeout_def clearTimerInterval_def
        clearReconnectTimeout_def closeWebSocketRef_def split: option.splits)

lemma closuresPastGuards_showNotification [simp]:
  "closuresPastGuards s \<Longrightarrow> closuresPastGuards (showNotification k m sub s)"
  by (simp add: showNotification_def Let_def)

lemma closuresPastGuards_append:
  "closuresPastGuards s \<Longrightarrow> pastGuards r w \<Longrightarrow>
   closuresPastGuards
     (s\<lparr>sockets := sockets s @ [\<lparr>readyState = x, requestId_ws = r, wsStatus_ws = w\<rparr>]\<rparr>)"
  by (simp add: closuresPastGuards_def)

lemma closuresPastGuards_connectWebSocket [simp]:
  "closuresPastGuards s \<Longrightarrow> closuresPastGuards (connectWebSocket r w s)"
  by (simp add: connectWebSocket_def Let_def closuresPastGuards_append pastGuards_def
        split: option.splits)

lemma closuresPastGuards_ws_onclose [simp]:
  "closuresPastGuards s \<Longrightarrow> pastGuards r w \<Longrightarrow> closuresPastGuards (ws_onclose r w c s)"
  by (simp add: ws_onclose_def Let_def)

lemma socket_pastGuards:
  "closuresPastGuards s \<Longrightarrow> i < length (sockets s) \<Longrightarrow>
   pastGuards (requestId_ws (sockets s ! i)) (wsStatus_ws (sockets s ! i))"
  by (simp add: closuresPastGuards_def list_all_length)

lemma timer_pastGuards:
  "closuresPastGuards s \<Longrightarrow> find P (timers s) = Some (h, d, ReconnectWebSocket r w) \<Longrightarrow>
   pastGuards r w"
  by (auto simp: closuresPastGuards_def list_all_iff dest!: find_Some_mem)

lemma closuresPastGuards_step: "closuresPastGuards s \<Longrightarrow> closuresPastGuards (step s ev)"
  by (cases ev)
     (simp_all add: event_defs Let_def socket_pastGuards
        split: option.splits prod.splits callback.splits outcome.splits
          error_action.splits ws_frame.splits)

lemma channelInvariant_step: "channelInvariant s \<Longrightarrow> channelInvariant (step s ev)"
  by (simp add: channelInvariant_def handlesFresh_step reconnectTracked_step
        closuresPastGuards_step)

lemma channelInvariant_foldl:
  "channelInvariant s \<Longrightarrow> channelInvariant (foldl step s evs)"
  by (induction evs arbitrary: s) (simp_all add: channelInvariant_step)

lemma channelInvariant_initial: "channelInvariant (initialScreen u c)"
  by (simp add: channelInvariant_def handlesFresh_def reconnectTracked_def
        closuresPastGuards_def initialScreen_def)

lemma channelInvariant_run: "channelInvariant (run evs (initialScreen u c))"
  unfolding run_def by (rule channelInvariant_foldl) (rule channelInvariant_initial)


subsection \<open>Reconnection\<close>

lemma find_fresh_append:
  "list_all (\<lambda>t. \<not> P t) xs \<Longrightarrow> P y \<Longrightarrow> find P (xs @ [y]) = Some y"
  by (induction xs) simp_all

lemma filter_fresh:
  "list_all (\<lambda>t. fst t < h) xs \<Longrightarrow> filter (\<lambda>t. fst t \<noteq> (h::nat)) xs = xs"
  by (induction xs) auto

lemma setReadyState_fields [simp]:
  "nextHandle (setReadyState i x s) = nextHandle s"
  "timers (setReadyState i x s) = timers s"
  "isMounted (setReadyState i x s) = isMounted s"
  "wsStatus (setReadyState i x s) = wsStatus s"
  "wsReconnectAttemptsRef (setReadyState i x s) = wsReconnectAttemptsRef s"
  "wsReconnectTimeoutRef (setReadyState i x s) = wsReconnectTimeoutRef s"
  "webSocketUrlAccepted (setReadyState i x s) = webSocketUrlAccepted s"
  "length (sockets (setReadyState i x s)) = length (sockets s)"
  by (simp_all add: setReadyState_def)

lemma connectWebSocket_fields [simp]:
  "wsReconnectAttemptsRef (connectWebSocket r w s) = wsReconnectAttemptsRef s"
  "timers (connectWebSocket r w s) = timers s"
  "nextHandle (connectWebSocket r w s) = nextHandle s"
  "isMounted (connectWebSocket r w s) = isMounted s"
  "wsReconnectTimeoutRef (connectWebSocket r w s) = wsReconnectTimeoutRef s"
  "webSocketUrlAccepted (connectWebSocket r w s) = webSocketUrlAccepted s"
  by (simp_all add: connectWebSocket_def closeSocket_def Let_def split: option.splits)

lemma connectWebSocket_opens:
  assumes "isMounted s" and "pastGuards r w" and "webSocketUrlAccepted s"
  shows "length (sockets (connectWebSocket r w s)) = Suc (length (sockets s))"
    and "wsStatus (connectWebSocket r w s) = CONNECTING"
    and "webSocketRef (connectWebSocket r w s) = Some (length (sockets s))"
    and "last (sockets (connectWebSocket r w s)) =
           \<lparr>readyState = WS_CONNECTING, requestId_ws = r, wsStatus_ws = w\<rparr>"
  using assms
  by (simp_all add: connectWebSocket_def pastGuards_def closeSocket_def Let_def
        split: option.splits)

lemma ws_onclose_schedules:
  assumes inv: "channelInvariant s"
    and mounted: "isMounted s"
    and i: "i < length (sockets s)"
    and attempts: "wsReconnectAttemptsRef s < MAX_RECONNECT_ATTEMPTS"
  defines "cb \<equiv> ReconnectWebSocket (requestId_ws (sockets s ! i)) (wsStatus_ws (sockets s ! i))"
  defines "s' \<equiv> step s (SocketCloses i False)"
  shows "pendingReconnects s' =
           [(nextHandle s, reconnectDelay (wsReconnectAttemptsRef s), cb)]"
    and "find (\<lambda>t. fst t = nextHandle s) (timers s') =
           Some (nextHandle s, reconnectDelay (wsReconnectAttemptsRef s), cb)"
    and "pendingReconnects (clearTimer (nextHandle s) s') = []"
    and "wsReconnectTimeoutRef s' = Some (nextHandle s)"
    and "wsStatus s' = DISCONNECTED"
    and "wsReconnectAttemptsRef s' = wsReconnectAttemptsRef s"
    and "isMounted s'"
    and "length (sockets s') = length (sockets s)"
    and "webSocketUrlAccepted s' = webSocketUrlAccepted s"
proof -
  let ?s1 = "(setReadyState i WS_CLOSED s)\<lparr>wsStatus := DISCONNECTED\<rparr>"
  let ?s2 = "clearReconnectTimeout ?s1"
  let ?d = "reconnectDelay (wsReconnectAttemptsRef s)"
  from inv have fresh: "handlesFresh s" and tracked: "reconnectTracked s"
    and closures: "closuresPastGuards s"
    by (simp_all add: channelInvariant_def)
  from socket_pastGuards [OF closures i]
  have truthy: "truthy (requestId_ws (sockets s ! i))"
    by (simp add: pastGuards_def)
  have fields: "isMounted ?s1" "wsReconnectAttemptsRef ?s1 = wsReconnectAttemptsRef s"
      "nextHandle ?s1 = nextHandle s" "length (sockets ?s1) = length (sockets s)"
      "requestId_ws (sockets (setReadyState i WS_CLOSED s) ! i) = requestId_ws (sockets s ! i)"
      "wsStatus_ws (sockets (setReadyState i WS_CLOSED s) ! i) = wsStatus_ws (sockets s ! i)"
      "webSocketUrlAccepted ?s1 = webSocketUrlAccepted s"
    using mounted i by (simp_all add: setReadyState_def)
  have s': "s' = (setTimer cb ?d ?s2)\<lparr>wsReconnectTimeoutRef := Some (nextHandle s)\<rparr>"
    using mounted i attempts truthy
    by (simp add: s'_def cb_def ws_onclose_def Let_def setReadyState_def)
  have none: "pendingReconnects ?s2 = []"
    by (rule pendingReconnects_cleared) (simp add: tracked)
  have fresh2: "list_all (\<lambda>t. fst t < nextHandle s) (timers ?s2)"
    using fresh
    by (auto simp: handlesFresh_def clearReconnectTimeout_def clearTimer_def
          setReadyState_def list_all_iff split: option.splits)
  have timers': "timers s' = timers ?s2 @ [(nextHandle s, ?d, cb)]"
    by (simp add: s' setTimer_def)
  show "pendingReconnects s' = [(nextHandle s, ?d, cb)]"
    using none by (simp add: pendingReconnects_def timers' isReconnect_def cb_def)
  show "find (\<lambda>t. fst t = nextHandle s) (timers s') = Some (nextHandle s, ?d, cb)"
    unfolding timers'
    by (rule find_fresh_append) (use fresh2 in \<open>auto simp: list_all_iff\<close>)
  show "pendingReconnects (clearTimer (nextHandle s) s') = []"
    using filter_fresh [OF fresh2] none
    by (simp add: pendingReconnects_def clearTimer_def timers')
  show "wsReconnectTimeoutRef s' = Some (nextHandle s)" by (simp add: s')
  show "wsStatus s' = DISCONNECTED" by (simp add: s' setTimer_def)
  show "wsReconnectAttemptsRef s' = wsReconnectAttemptsRef s"
    by (simp add: s' setTimer_def setReadyState_def)
  show "isMounted s'" using mounted by (simp add: s' setTimer_def setReadyState_def)
  show "length (sockets s') = length (sockets s)"
    by (simp add: s' setTimer_def setReadyState_def)
  show "webSocketUrlAccepted s' = webSocketUrlAccepted s"
    by (simp add: s' setTimer_def setReadyState_def)
qed


lemma reconnect_fires:
  assumes inv: "channelInvariant s"
    and mounted: "isMounted s"
    and i: "i < length (sockets s)"
    and attempts: "wsReconnectAttemptsRef s < MAX_RECONNECT_ATTEMPTS"
  defines "s' \<equiv> step s (SocketCloses i False)"
  defines "s'' \<equiv> step s' (TimerFires (nextHandle s))"
  shows "wsReconnectAttemptsRef s'' = wsReconnectAttemptsRef s + 1"
    and "pendingReconnects s'' = []"
    and "webSocketUrlAccepted s \<Longrightarrow> length (sockets s'') = length (sockets s) + 1"
    and "webSocketUrlAccepted s \<Longrightarrow> wsStatus s'' = CONNECTING"
proof -
  let ?r = "requestId_ws (sockets s ! i)" and ?w = "wsStatus_ws (sockets s ! i)"
  let ?t = "(clearTimer (nextHandle s) s')\<lparr>wsReconnectAttemptsRef := wsReconnectAttemptsRef s' + 1\<rparr>"
  note c = ws_onclose_schedules [OF inv mounted i attempts, folded s'_def]
  from inv have closures: "closuresPastGuards s" by (simp add: channelInvariant_def)
  note past = socket_pastGuards [OF closures i]
  have s'': "s'' = connectWebSocket ?r ?w ?t"
    by (simp add: s''_def fireTimer_def c(2) reconnectCallback_def c(7) clearTimer_def)
  have t: "isMounted ?t" "webSocketUrlAccepted ?t = webSocketUrlAccepted s"
      "length (sockets ?t) = length (sockets s)"
    using c(7,8,9) by (simp_all add: clearTimer_def)
  show "wsReconnectAttemptsRef s'' = wsReconnectAttemptsRef s + 1"
    by (simp add: s'' c(6) clearTimer_def)
  show "pendingReconnects s'' = []"
    using c(3) by (simp add: s'' pendingReconnects_def clearTimer_def)
  show "length (sockets s'') = length (sockets s) + 1" if "webSocketUrlAccepted s"
    using connectWebSocket_opens(1) [OF t(1) past, of] that t(2,3) by (simp add: s'')
  show "wsStatus s'' = CONNECTING" if "webSocketUrlAccepted s"
    using connectWebSocket_opens(2) [OF t(1) past] that t(2) by (simp add: s'')
qed

lemma ws_onopen_resets:
  "isMounted s \<Longrightarrow> i < length (sockets s) \<Longrightarrow>
   wsReconnectAttemptsRef (step s (SocketOpens i)) = 0
   \<and> wsStatus (step s (SocketOpens i)) = CONNECTED"
  by (simp add: ws_onopen_def)


lemmas run_defs =
  run_def initialScreen_def webSocketEffect_def connectWebSocket_def closeSocket_def
  truthy_def ws_onopen_def ws_onclose_def ws_onerror_def setReadyState_def fireTimer_def
  reconnectCallback_def handleReconnectWebSocket_def clearReconnectTimeout_def
  setTimer_def clearTimer_def reconnectDelay_def WS_RECONNECT_DELAY_def
  MAX_RECONNECT_ATTEMPTS_def pendingReconnects_def isReconnect_def Let_def

text \<open>
  C3. In every state the events can produce from the first render, an unclean close of
  one of the component's sockets on a mounted screen with fewer than 3 attempts so far
  leaves exactly one reconnect pending, whatever was pending before: the new one, due
  after min(3000 ms * (attempts + 1), 10000 ms) and held by \<open>wsReconnectTimeoutRef\<close>.
  The attempt counter is unchanged by the close and is incremented when that timeout
  fires, which opens one new socket (when the URL is accepted) and leaves no reconnect
  pending. A socket that opens on a mounted screen sets the counter to 0 and the status
  to CONNECTED.
\<close>

theorem reconnect_policy:
  "(let s = run evs (initialScreen u c);
        s' = step s (SocketCloses i False);
        s'' = step s' (TimerFires (nextHandle s))
    in (isMounted s \<and> i < length (sockets s) \<and> wsReconnectAttemptsRef s < 3 \<longrightarrow>
          pendingReconnects s' =
            [(nextHandle s, min (3000 * (wsReconnectAttemptsRef s + 1)) 10000,
              ReconnectWebSocket (requestId_ws (sockets s ! i)) (wsStatus_ws (sockets s ! i)))]
        \<and> wsReconnectTimeoutRef s' = Some (nextHandle s)
        \<and> wsStatus s' = DISCONNECTED
        \<and> wsReconnectAttemptsRef s' = wsReconnectAttemptsRef s
        \<and> wsReconnectAttemptsRef s'' = wsReconnectAttemptsRef s + 1
        \<and> pendingReconnects s'' = []
        \<and> (webSocketUrlAccepted s \<longrightarrow>
              length (sockets s'') = length (sockets s) + 1 \<and> wsStatus s'' = CONNECTING))
     \<and> (isMounted s \<and> i < length (sockets s) \<longrightarrow>
          wsReconnectAttemptsRef (step s (SocketOpens i)) = 0
        \<and> wsStatus (step s (SocketOpens i)) = CONNECTED))"
proof -
  let ?s = "run evs (initialScreen u c)"
  have inv: "channelInvariant ?s" by (rule channelInvariant_run)
  have sched: "isMounted ?s \<and> i < length (sockets ?s) \<and> wsReconnectAttemptsRef ?s < 3 \<longrightarrow>
          pendingReconnects (step ?s (SocketCloses i False)) =
            [(nextHandle ?s, min (3000 * (wsReconnectAttemptsRef ?s + 1)) 10000,
              ReconnectWebSocket (requestId_ws (sockets ?s ! i)) (wsStatus_ws (sockets ?s ! i)))]
        \<and> wsReconnectTimeoutRef (step ?s (SocketCloses i False)) = Some (nextHandle ?s)
        \<and> wsStatus (step ?s (SocketCloses i False)) = DISCONNECTED
        \<and> wsReconnectAttemptsRef (step ?s (SocketCloses i False)) = wsReconnectAttemptsRef ?s"
    using ws_onclose_schedules(1,4,5,6) [OF inv, of i]
    by (simp add: MAX_RECONNECT_ATTEMPTS_def reconnectDelay_def WS_RECONNECT_DELAY_def)
  have fire: "isMounted ?s \<and> i < length (sockets ?s) \<and> wsReconnectAttemptsRef ?s < 3 \<longrightarrow>
          wsReconnectAttemptsRef
            (step (step ?s (SocketCloses i False)) (TimerFires (nextHandle ?s))) =
            wsReconnectAttemptsRef ?s + 1
        \<and> pendingReconnects
            (step (step ?s (SocketCloses i False)) (TimerFires (nextHandle ?s))) = []
        \<and> (webSocketUrlAccepted ?s \<longrightarrow>
              length (sockets
                (step (step ?s (SocketCloses i False)) (TimerFires (nextHandle ?s)))) =
                length (sockets ?s) + 1
            \<and> wsStatus
                (step (step ?s (SocketCloses i False)) (TimerFires (nextHandle ?s))) =
                CONNECTING)"
    using reconnect_fires [OF inv, of i]
    by (simp add: MAX_RECONNECT_ATTEMPTS_def)
  show ?thesis
    unfolding Let_def using sched fire ws_onopen_resets [of ?s i] by blast
qed

theorem reconnect_policy_witness:
  "isMounted (run [WebSocketEffect (Some ''r1'') DISCONNECTED] (initialScreen True initialCart))
   \<and> 0 < length (sockets
        (run [WebSocketEffect (Some ''r1'') DISCONNECTED] (initialScreen True initialCart)))
   \<and> wsReconnectAttemptsRef
        (run [WebSocketEffect (Some ''r1'') DISCONNECTED] (initialScreen True initialCart)) < 3
   \<and> pendingReconnects
        (step (run [WebSocketEffect (Some ''r1'') DISCONNECTED] (initialScreen True initialCart))
           (SocketCloses 0 False)) =
       [(1, 3000, ReconnectWebSocket (Some ''r1'') DISCONNECTED)]
   \<and> wsReconnectAttemptsRef
        (step (step (run [WebSocketEffect (Some ''r1'') DISCONNECTED]
                       (initialScreen True initialCart))
                 (SocketCloses 0 False)) (TimerFires 1)) = 1
   \<and> length (sockets
        (step (step (run [WebSocketEffect (Some ''r1'') DISCONNECTED]
                       (initialScreen True initialCart))
                 (SocketCloses 0 False)) (TimerFires 1))) = 2"
proof -
  let ?s = "run [WebSocketEffect (Some ''r1'') DISCONNECTED] (initialScreen True initialCart)"
  have s: "isMounted ?s" "0 < length (sockets ?s)" "wsReconnectAttemptsRef ?s < 3"
      "nextHandle ?s = 1" "wsReconnectAttemptsRef ?s = 0" "length (sockets ?s) = 1"
      "webSocketUrlAccepted ?s"
      "requestId_ws (sockets ?s ! 0) = Some ''r1''" "wsStatus_ws (sockets ?s ! 0) = DISCONNECTED"
    by (simp_all add: run_defs)
  note policy =
    reconnect_policy [of "[WebSocketEffect (Some ''r1'') DISCONNECTED]" True initialCart 0,
      unfolded Let_def]
  from policy s(1-3,7)
  have "pendingReconnects (step ?s (SocketCloses 0 False)) =
          [(nextHandle ?s, min (3000 * (wsReconnectAttemptsRef ?s + 1)) 10000,
            ReconnectWebSocket (requestId_ws (sockets ?s ! 0)) (wsStatus_ws (sockets ?s ! 0)))]
      \<and> wsReconnectAttemptsRef
          (step (step ?s (SocketCloses 0 False)) (TimerFires (nextHandle ?s))) =
          wsReconnectAttemptsRef ?s + 1
      \<and> length (sockets
          (step (step ?s (SocketCloses 0 False)) (TimerFires (nextHandle ?s)))) =
          length (sockets ?s) + 1"
    by blast
  with s show ?thesis
    by (simp del: step.simps)
qed

text \<open>
  The counter is incremented when a reconnect timeout fires, not when a socket closes.
  From the first connection for request r1, with every scheduled reconnect firing, the
  third consecutive unclean close finds the counter at 2: the status is DISCONNECTED and
  a third reconnect is pending, after 9000 ms.
\<close>

lemma third_close_schedules_again:
  "wsStatus
     (run [WebSocketEffect (Some ''r1'') DISCONNECTED,
           SocketCloses 0 False, TimerFires 1,
           SocketCloses 1 False, TimerFires 2,
           SocketCloses 2 False]
        (initialScreen True initialCart)) = DISCONNECTED
   \<and> pendingReconnects
     (run [WebSocketEffect (Some ''r1'') DISCONNECTED,
           SocketCloses 0 False, TimerFires 1,
           SocketCloses 1 False, TimerFires 2,
           SocketCloses 2 False]
        (initialScreen True initialCart)) =
     [(3, 9000, ReconnectWebSocket (Some ''r1'') DISCONNECTED)]"
  by (simp add: run_defs)

text \<open>
  When the close handler gives up: an unclean close on a mounted screen whose counter
  has reached the limit sets the status to FAILED and leaves the timer table, the
  tracked timeout, the counter and the sockets as they were.
\<close>

lemma ws_onclose_exhausted:
  assumes "isMounted s" and "i < length (sockets s)"
    and "MAX_RECONNECT_ATTEMPTS \<le> wsReconnectAttemptsRef s"
  shows "wsStatus (step s (SocketCloses i False)) = FAILED"
    and "timers (step s (SocketCloses i False)) = timers s"
    and "wsReconnectTimeoutRef (step s (SocketCloses i False)) = wsReconnectTimeoutRef s"
    and "wsReconnectAttemptsRef (step s (SocketCloses i False)) = wsReconnectAttemptsRef s"
    and "length (sockets (step s (SocketCloses i False))) = length (sockets s)"
  using assms by (simp_all add: ws_onclose_def Let_def)

text \<open>
  The manual reconnect, on a mounted screen with a request id and rendered with status
  FAILED, sets the counter to 0 and opens exactly one new socket.
\<close>

lemma handleReconnectWebSocket_opens:
  assumes "isMounted s" and "truthy r" and "webSocketUrlAccepted s"
  shows "wsReconnectAttemptsRef (step s (ClickReconnect r FAILED)) = 0"
    and "length (sockets (step s (ClickReconnect r FAILED))) = length (sockets s) + 1"
    and "wsStatus (step s (ClickReconnect r FAILED)) = CONNECTING"
    and "timers (step s (ClickReconnect r FAILED)) = timers s"
  using assms connectWebSocket_opens(1,2) [of "s\<lparr>wsReconnectAttemptsRef := 0\<rparr>" r FAILED]
  by (simp_all add: handleReconnectWebSocket_def pastGuards_def)

text \<open>
  The effect that follows \<open>requestId\<close> and \<open>wsStatus\<close> does the same by itself: run
  for a render with status FAILED, on a mounted screen with a request id, it opens one
  new socket and sets the status to CONNECTING, and it leaves the counter as it is.
\<close>

lemma webSocketEffect_reconnects_when_failed:
  assumes "isMounted s" and "truthy r" and "webSocketUrlAccepted s"
  shows "length (sockets (step s (WebSocketEffect r FAILED))) = length (sockets s) + 1"
    and "wsStatus (step s (WebSocketEffect r FAILED)) = CONNECTING"
    and "wsReconnectAttemptsRef (step s (WebSocketEffect r FAILED)) = wsReconnectAttemptsRef s"
  using assms connectWebSocket_opens(1,2) [of s r FAILED]
  by (simp_all add: webSocketEffect_def pastGuards_def)

text \<open>
  C2, at the input where the code leaves what the claim says. The channel for request
  r1 closes uncleanly again and again and never opens; the effect runs after every
  change of status, as React runs it, and every scheduled reconnect fires. The close
  that finds the counter at 3 sets the status to FAILED and schedules nothing. The
  status has changed, so the effect runs for the render with FAILED: it goes past the
  guard of \<open>connectWebSocket\<close>, which stops only CONNECTING and CONNECTED, and opens
  another socket. After exhaustion the code has made an automatic reconnection attempt:
  the status is CONNECTING again, there is one more socket, and the counter is still 3,
  not reset as the manual reconnect would have done. The same happens in the shorter
  run in which the effect runs only at the start and after FAILED.
\<close>

theorem reconnects_by_itself_after_failed:
  "wsStatus
     (run [WebSocketEffect (Some ''r1'') DISCONNECTED, WebSocketEffect (Some ''r1'') CONNECTING,
           SocketCloses 0 False,
           WebSocketEffect (Some ''r1'') DISCONNECTED, WebSocketEffect (Some ''r1'') CONNECTING,
           TimerFires 1, SocketCloses 1 False,
           WebSocketEffect (Some ''r1'') DISCONNECTED, WebSocketEffect (Some ''r1'') CONNECTING,
           TimerFires 2, SocketCloses 2 False,
           WebSocketEffect (Some ''r1'') DISCONNECTED, WebSocketEffect (Some ''r1'') CONNECTING,
           TimerFires 3, SocketCloses 3 False]
        (initialScreen True initialCart)) = FAILED
   \<and> pendingReconnects
     (run [WebSocketEffect (Some ''r1'') DISCONNECTED, WebSocketEffect (Some ''r1'') CONNECTING,
           SocketCloses 0 False,
           WebSocketEffect (Some ''r1'') DISCONNECTED, WebSocketEffect (Some ''r1'') CONNECTING,
           TimerFires 1, SocketCloses 1 False,
           WebSocketEffect (Some ''r1'') DISCONNECTED, WebSocketEffect (Some ''r1'') CONNECTING,
           TimerFires 2, SocketCloses 2 False,
           WebSocketEffect (Some ''r1'') DISCONNECTED, WebSocketEffect (Some ''r1'') CONNECTING,
           TimerFires 3, SocketCloses 3 False]
        (initialScreen True initialCart)) = []
   \<and> length (sockets
     (run [WebSocketEffect (Some ''r1'') DISCONNECTED, WebSocketEffect (Some ''r1'') CONNECTING,
           SocketCloses 0 False,
           WebSocketEffect (Some ''r1'') DISCONNECTED, WebSocketEffect (Some ''r1'') CONNECTING,
           TimerFires 1, SocketCloses 1 False,
           WebSocketEffect (Some ''r1'') DISCONNECTED, WebSocketEffect (Some ''r1'') CONNECTING,
           TimerFires 2, SocketCloses 2 False,
           WebSocketEffect (Some ''r1'') DISCONNECTED, WebSocketEffect (Some ''r1'') CONNECTING,
           TimerFires 3, SocketCloses 3 False]
        (initialScreen True initialCart))) = 7
   \<and> wsStatus
     (run [WebSocketEffect (Some ''r1'') DISCONNECTED, WebSocketEffect (Some ''r1'') CONNECTING,
           SocketCloses 0 False,
           WebSocketEffect (Some ''r1'') DISCONNECTED, WebSocketEffect (Some ''r1'') CONNECTING,
           TimerFires 1, SocketCloses 1 False,
           WebSocketEffect (Some ''r1'') DISCONNECTED, WebSocketEffect (Some ''r1'') CONNECTING,
           TimerFires 2, SocketCloses 2 False,
           WebSocketEffect (Some ''r1'') DISCONNECTED, WebSocketEffect (Some ''r1'') CONNECTING,
           TimerFires 3, SocketCloses 3 False,
           WebSocketEffect (Some ''r1'') FAILED]
        (initialScreen True initialCart)) = CONNECTING
   \<and> length (sockets
     (run [WebSocketEffect (Some ''r1'') DISCONNECTED, WebSocketEffect (Some ''r1'') CONNECTING,
           SocketCloses 0 False,
           WebSocketEffect (Some ''r1'') DISCONNECTED, WebSocketEffect (Some ''r1'') CONNECTING,
           TimerFires 1, SocketCloses 1 False,
           WebSocketEffect (Some ''r1'') DISCONNECTED, WebSocketEffect (Some ''r1'') CONNECTING,
           TimerFires 2, SocketCloses 2 False,
           WebSocketEffect (Some ''r1'') DISCONNECTED, WebSocketEffect (Some ''r1'') CONNECTING,
           TimerFires 3, SocketCloses 3 False,
           WebSocketEffect (Some ''r1'') FAILED]
        (initialScreen True initialCart))) = 8
   \<and> wsReconnectAttemptsRef
     (run [WebSocketEffect (Some ''r1'') DISCONNECTED, WebSocketEffect (Some ''r1'') CONNECTING,
           SocketCloses 0 False,
           WebSocketEffect (Some ''r1'') DISCONNECTED, WebSocketEffect (Some ''r1'') CONNECTING,
           TimerFires 1, SocketCloses 1 False,
           WebSocketEffect (Some ''r1'') DISCONNECTED, WebSocketEffect (Some ''r1'') CONNECTING,
           TimerFires 2, SocketCloses 2 False,
           WebSocketEffect (Some ''r1'') DISCONNECTED, WebSocketEffect (Some ''r1'') CONNECTING,
           TimerFires 3, SocketCloses 3 False,
           WebSocketEffect (Some ''r1'') FAILED]
        (initialScreen True initialCart)) = 3
   \<and> wsStatus
     (run [WebSocketEffect (Some ''r1'') DISCONNECTED,
           SocketCloses 0 False, TimerFires 1,
           SocketCloses 1 False, TimerFires 2,
           SocketCloses 2 False, TimerFires 3,
           SocketCloses 3 False]
        (initialScreen True initialCart)) = FAILED
   \<and> wsStatus
     (run [WebSocketEffect (Some ''r1'') DISCONNECTED,
           SocketCloses 0 False, TimerFires 1,
           SocketCloses 1 False, TimerFires 2,
           SocketCloses 2 False, TimerFires 3,
           SocketCloses 3 False,
           WebSocketEffect (Some ''r1'') FAILED]
        (initialScreen True initialCart)) = CONNECTING
   \<and> length (sockets
     (run [WebSocketEffect (Some ''r1'') DISCONNECTED,
           SocketCloses 0 False, TimerFires 1,
           SocketCloses 1 False, TimerFires 2,
           SocketCloses 2 False, TimerFires 3,
           SocketCloses 3 False,
           WebSocketEffect (Some ''r1'') FAILED]
        (initialScreen True initialCart))) = 5"
  by (simp add: run_defs)


section \<open>Channel events: failure and expiry\<close>

text \<open>
  A notification is shown together with the timeout that removes it: on a mounted screen
  whose timer handles are fresh, the timeout registered by \<open>showNotification\<close> is
  the one found under its handle, and when it fires the notification is gone.
\<close>

lemma showNotification_timeout:
  assumes mounted: "isMounted s" and fresh: "handlesFresh s"
  shows "find (\<lambda>t. fst t = nextHandle s) (timers (showNotification k m sub s)) =
           Some (nextHandle s, NOTIFICATION_DURATION, DismissNotification)"
    and "isMounted (showNotification k m sub s)"
    and "notification (showNotification k m sub s) =
           Some \<lparr>kind = k, message = m, submessage = sub\<rparr>"
proof -
  let ?s1 = "clearNotificationTimeout s"
  have t: "timers (showNotification k m sub s) =
             timers ?s1 @ [(nextHandle s, NOTIFICATION_DURATION, DismissNotification)]"
    using mounted
    by (simp add: showNotification_def setTimer_def clearNotificationTimeout_def
          clearTimer_def Let_def split: option.splits)
  have "list_all (\<lambda>t. fst t < nextHandle s) (timers ?s1)"
    using fresh
    by (auto simp: handlesFresh_def clearNotificationTimeout_def clearTimer_def
          list_all_iff split: option.splits)
  then have "list_all (\<lambda>t. \<not> fst t = nextHandle s) (timers ?s1)"
    by (auto simp: list_all_iff)
  then show "find (\<lambda>t. fst t = nextHandle s) (timers (showNotification k m sub s)) =
           Some (nextHandle s, NOTIFICATION_DURATION, DismissNotification)"
    unfolding t by (rule find_fresh_append) simp
  show "isMounted (showNotification k m sub s)"
    using mounted
    by (simp add: showNotification_def setTimer_def clearNotificationTimeout_def
          clearTimer_def Let_def split: option.splits)
  show "notification (showNotification k m sub s) =
           Some \<lparr>kind = k, message = m, submessage = sub\<rparr>"
    using mounted
    by (simp add: showNotification_def setTimer_def clearNotificationTimeout_def
          clearTimer_def Let_def split: option.splits)
qed

lemma showNotification_calls: "calls (showNotification k m sub s) = calls s"
  by (simp add: showNotification_def setTimer_def clearNotificationTimeout_def
        clearTimer_def Let_def split: option.splits)

lemma showNotification_dismissed:
  assumes "isMounted s" and "handlesFresh s"
  shows "notification (fireTimer (nextHandle s) (showNotification k m sub s)) = None"
    and "calls (fireTimer (nextHandle s) (showNotification k m sub s)) = calls s"
    and "notification (fireTimer (nextHandle s) (call c (showNotification k m sub s))) = None"
    and "calls (fireTimer (nextHandle s) (call c (showNotification k m sub s))) = calls s @ [c]"
  using showNotification_timeout(1,2) [OF assms, of k m sub]
    showNotification_calls [of k m sub s]
  by (simp_all add: fireTimer_def dismissNotification_def clearTimer_def call_def)

lemma handlesFresh_foldl: "handlesFresh s \<Longrightarrow> handlesFresh (foldl step s evs)"
  by (induction evs arbitrary: s) (simp_all add: handlesFresh_step)

lemma handlesFresh_run: "handlesFresh (run evs (initialScreen u c))"
  unfolding run_def
  by (rule handlesFresh_foldl) (simp add: handlesFresh_def)

text \<open>
  C4. On a mounted screen a frame with status FAILED sets the session status to FAILED
  and shows an error notification without starting the order cancellation; a frame with
  status EXPIRED sets the status to EXPIRED, shows an error notification and then starts
  the order cancellation, once. Either notification is transient: it comes with a
  timeout of 3000 ms, and when that timeout fires the notification is removed (the
  handles of pending timers are fresh, as they are in every state the events produce
  from the first render).
\<close>

theorem channel_failed_vs_expired:
  "(isMounted s \<longrightarrow>
     calls (ws_onmessage (Frame (Some ''FAILED'') m) s) = calls s @ [SetStatus ''FAILED'']
   \<and> notification (ws_onmessage (Frame (Some ''FAILED'') m) s) =
       Some \<lparr>kind = Error, message = PAYMENT_FAILED_TEXT,
             submessage = Some (if truthy m then ServerText (the m)
                                else PAYMENT_FAILED_DETAIL_TEXT)\<rparr>
   \<and> cancellationsStarted (ws_onmessage (Frame (Some ''FAILED'') m) s) = cancellationsStarted s
   \<and> calls (ws_onmessage (Frame (Some ''EXPIRED'') m) s) =
       calls s @ [SetStatus ''EXPIRED'', CancelOrderMutate]
   \<and> notification (ws_onmessage (Frame (Some ''EXPIRED'') m) s) =
       Some \<lparr>kind = Error, message = PAYMENT_EXPIRED_TEXT, submessage = None\<rparr>
   \<and> cancellationsStarted (ws_onmessage (Frame (Some ''EXPIRED'') m) s) =
       cancellationsStarted s + 1
   \<and> last (timers (ws_onmessage (Frame (Some ''FAILED'') m) s)) =
       (nextHandle s, 3000, DismissNotification)
   \<and> last (timers (ws_onmessage (Frame (Some ''EXPIRED'') m) s)) =
       (nextHandle s, 3000, DismissNotification)
   \<and> (handlesFresh s \<longrightarrow>
        notification
          (step (ws_onmessage (Frame (Some ''FAILED'') m) s) (TimerFires (nextHandle s))) = None
      \<and> notification
          (step (ws_onmessage (Frame (Some ''EXPIRED'') m) s) (TimerFires (nextHandle s))) = None
      \<and> calls
          (step (ws_onmessage (Frame (Some ''FAILED'') m) s) (TimerFires (nextHandle s))) =
          calls s @ [SetStatus ''FAILED'']
      \<and> calls
          (step (ws_onmessage (Frame (Some ''EXPIRED'') m) s) (TimerFires (nextHandle s))) =
          calls s @ [SetStatus ''EXPIRED'', CancelOrderMutate]))
   \<and> handlesFresh (run evs (initialScreen u c))"
proof -
  have shown: "isMounted s \<longrightarrow>
     calls (ws_onmessage (Frame (Some ''FAILED'') m) s) = calls s @ [SetStatus ''FAILED'']
   \<and> notification (ws_onmessage (Frame (Some ''FAILED'') m) s) =
       Some \<lparr>kind = Error, message = PAYMENT_FAILED_TEXT,
             submessage = Some (if truthy m then ServerText (the m)
                                else PAYMENT_FAILED_DETAIL_TEXT)\<rparr>
   \<and> cancellationsStarted (ws_onmessage (Frame (Some ''FAILED'') m) s) = cancellationsStarted s
   \<and> calls (ws_onmessage (Frame (Some ''EXPIRED'') m) s) =
       calls s @ [SetStatus ''EXPIRED'', CancelOrderMutate]
   \<and> notification (ws_onmessage (Frame (Some ''EXPIRED'') m) s) =
       Some \<lparr>kind = Error, message = PAYMENT_EXPIRED_TEXT, submessage = None\<rparr>
   \<and> cancellationsStarted (ws_onmessage (Frame (Some ''EXPIRED'') m) s) =
       cancellationsStarted s + 1
   \<and> last (timers (ws_onmessage (Frame (Some ''FAILED'') m) s)) =
       (nextHandle s, 3000, DismissNotification)
   \<and> last (timers (ws_onmessage (Frame (Some ''EXPIRED'') m) s)) =
       (nextHandle s, 3000, DismissNotification)"
    by (simp add: ws_onmessage_def screen_defs cancellationsStarted_def Let_def
          split: option.splits)
  have gone: "notification
          (step (ws_onmessage (Frame (Some ''FAILED'') m) s) (TimerFires (nextHandle s))) = None
      \<and> notification
          (step (ws_onmessage (Frame (Some ''EXPIRED'') m) s) (TimerFires (nextHandle s))) = None
      \<and> calls
          (step (ws_onmessage (Frame (Some ''FAILED'') m) s) (TimerFires (nextHandle s))) =
          calls s @ [SetStatus ''FAILED'']
      \<and> calls
          (step (ws_onmessage (Frame (Some ''EXPIRED'') m) s) (TimerFires (nextHandle s))) =
          calls s @ [SetStatus ''EXPIRED'', CancelOrderMutate]"
    if mounted: "isMounted s" and fresh: "handlesFresh s"
  proof -
    let ?f = "call (SetStatus ''FAILED'') s" and ?e = "call (SetStatus ''EXPIRED'') s"
    have pre: "isMounted ?f" "handlesFresh ?f" "isMounted ?e" "handlesFresh ?e"
      using mounted fresh by (simp_all add: call_def)
    have h: "nextHandle ?f = nextHandle s" "nextHandle ?e = nextHandle s"
      and c: "calls ?f = calls s @ [SetStatus ''FAILED'']"
        "calls ?e = calls s @ [SetStatus ''EXPIRED'']"
      by (simp_all add: call_def)
    note f = showNotification_dismissed(1,2) [OF pre(1,2), unfolded h c]
    note e = showNotification_dismissed(3,4) [OF pre(3,4), unfolded h c]
    have sf: "ws_onmessage (Frame (Some ''FAILED'') m) s =
        showNotification Error PAYMENT_FAILED_TEXT
          (Some (if truthy m then ServerText (the m) else PAYMENT_FAILED_DETAIL_TEXT)) ?f"
      using mounted by (simp add: ws_onmessage_def)
    have se: "ws_onmessage (Frame (Some ''EXPIRED'') m) s =
        call CancelOrderMutate (showNotification Error PAYMENT_EXPIRED_TEXT None ?e)"
      using mounted showNotification_timeout(2) [OF pre(3,4), of Error PAYMENT_EXPIRED_TEXT None]
      by (simp add: ws_onmessage_def handleCancel_def)
    show ?thesis
      unfolding sf se step.simps
      using f [of Error PAYMENT_FAILED_TEXT
          "Some (if truthy m then ServerText (the m) else PAYMENT_FAILED_DETAIL_TEXT)"]
        e [of CancelOrderMutate Error PAYMENT_EXPIRED_TEXT None]
      by simp
  qed
  from shown gone handlesFresh_run [of evs u c] show ?thesis by blast
qed

theorem channel_failed_vs_expired_witness:
  "isMounted (initialScreen True initialCart)
   \<and> handlesFresh (initialScreen True initialCart)
   \<and> calls (ws_onmessage (Frame (Some ''FAILED'') (Some ''declined''))
        (initialScreen True initialCart)) = [SetStatus ''FAILED'']
   \<and> cancellationsStarted (ws_onmessage (Frame (Some ''FAILED'') (Some ''declined''))
        (initialScreen True initialCart)) = 0
   \<and> calls (ws_onmessage (Frame (Some ''EXPIRED'') (Some ''declined''))
        (initialScreen True initialCart)) = [SetStatus ''EXPIRED'', CancelOrderMutate]
   \<and> cancellationsStarted (ws_onmessage (Frame (Some ''EXPIRED'') (Some ''declined''))
        (initialScreen True initialCart)) = 1
   \<and> notification (ws_onmessage (Frame (Some ''FAILED'') (Some ''declined''))
        (initialScreen True initialCart)) =
       Some \<lparr>kind = Error, message = PAYMENT_FAILED_TEXT,
             submessage = Some (ServerText ''declined'')\<rparr>
   \<and> notification
        (step (ws_onmessage (Frame (Some ''FAILED'') (Some ''declined''))
                 (initialScreen True initialCart))
           (TimerFires (nextHandle (initialScreen True initialCart)))) = None
   \<and> notification
        (step (ws_onmessage (Frame (Some ''EXPIRED'') (Some ''declined''))
                 (initialScreen True initialCart))
           (TimerFires (nextHandle (initialScreen True initialCart)))) = None"
proof -
  have pre: "isMounted (initialScreen True initialCart)"
      "handlesFresh (initialScreen True initialCart)"
      "truthy (Some ''declined'')"
    by (simp_all add: handlesFresh_def truthy_def)
  from channel_failed_vs_expired
      [of "initialScreen True initialCart" "Some ''declined''" "[]" True initialCart] pre
  show ?thesis
    by (simp add: cancellationsStarted_def del: step.simps)
qed

end
